theory Spec2Isabelle
  imports Complex_Main "HOL-Library.Sublist"
begin

section \<open>JavaScript numbers\<close>

text \<open>
  The dashboard is JavaScript: every number is an IEEE double. The model keeps the
  three non-finite values apart from the finite ones and treats a finite value as the
  real number it stands for, so rounding and overflow of finite arithmetic are
  idealised away, while division by zero, \<open>Infinity\<close> and \<open>NaN\<close> behave as
  in the language. Zero has no sign here: a zero divisor is taken as \<open>+0\<close>, which
  is what \<open>Math.abs\<close>, \<open>Math.sqrt\<close> and sums started at \<open>0\<close> produce at every
  division of the modelled code.
\<close>

datatype jsnum = Fin real | PInf | NInf | NaN

fun js_neg :: "jsnum \<Rightarrow> jsnum" where
  "js_neg (Fin x) = Fin (- x)"
| "js_neg PInf = NInf"
| "js_neg NInf = PInf"
| "js_neg NaN = NaN"

fun js_add :: "jsnum \<Rightarrow> jsnum \<Rightarrow> jsnum" where
  "js_add (Fin x) (Fin y) = Fin (x + y)"
| "js_add NaN _ = NaN"
| "js_add _ NaN = NaN"
| "js_add PInf NInf = NaN"
| "js_add NInf PInf = NaN"
| "js_add PInf _ = PInf"
| "js_add _ PInf = PInf"
| "js_add NInf _ = NInf"
| "js_add _ NInf = NInf"

fun js_mul :: "jsnum \<Rightarrow> jsnum \<Rightarrow> jsnum" where
  "js_mul (Fin x) (Fin y) = Fin (x * y)"
| "js_mul NaN _ = NaN"
| "js_mul _ NaN = NaN"
| "js_mul PInf (Fin y) = (if y = 0 then NaN else if 0 < y then PInf else NInf)"
| "js_mul NInf (Fin y) = (if y = 0 then NaN else if 0 < y then NInf else PInf)"
| "js_mul (Fin x) PInf = (if x = 0 then NaN else if 0 < x then PInf else NInf)"
| "js_mul (Fin x) NInf = (if x = 0 then NaN else if 0 < x then NInf else PInf)"
| "js_mul PInf PInf = PInf"
| "js_mul PInf NInf = NInf"
| "js_mul NInf PInf = NInf"
| "js_mul NInf NInf = PInf"

fun js_div :: "jsnum \<Rightarrow> jsnum \<Rightarrow> jsnum" where
  "js_div (Fin x) (Fin y) =
     (if y \<noteq> 0 then Fin (x / y)
      else if x = 0 then NaN else if 0 < x then PInf else NInf)"
| "js_div NaN _ = NaN"
| "js_div _ NaN = NaN"
| "js_div (Fin x) PInf = Fin 0"
| "js_div (Fin x) NInf = Fin 0"
| "js_div PInf (Fin y) = (if 0 \<le> y then PInf else NInf)"
| "js_div NInf (Fin y) = (if 0 \<le> y then NInf else PInf)"
| "js_div PInf PInf = NaN"
| "js_div PInf NInf = NaN"
| "js_div NInf PInf = NaN"
| "js_div NInf NInf = NaN"

fun js_abs :: "jsnum \<Rightarrow> jsnum" where
  "js_abs (Fin x) = Fin \<bar>x\<bar>"
| "js_abs PInf = PInf"
| "js_abs NInf = PInf"
| "js_abs NaN = NaN"

fun js_lt :: "jsnum \<Rightarrow> jsnum \<Rightarrow> bool" where
  "js_lt (Fin x) (Fin y) = (x < y)"
| "js_lt NaN _ = False"
| "js_lt _ NaN = False"
| "js_lt (Fin x) PInf = True"
| "js_lt NInf (Fin y) = True"
| "js_lt NInf PInf = True"
| "js_lt PInf _ = False"
| "js_lt _ NInf = False"

fun js_le :: "jsnum \<Rightarrow> jsnum \<Rightarrow> bool" where
  "js_le (Fin x) (Fin y) = (x \<le> y)"
| "js_le NaN _ = False"
| "js_le _ NaN = False"
| "js_le _ PInf = True"
| "js_le NInf _ = True"
| "js_le PInf _ = False"
| "js_le _ NInf = False"

text \<open>
  The operators of the language are written with the usual symbols: \<open>a + b\<close> on
  \<open>jsnum\<close> is \<open>js_add a b\<close>, and so on. \<open>a - b\<close> is \<open>a + (-b)\<close>, in IEEE
  arithmetic too. \<open><\<close> and \<open>\<le>\<close> are the language's comparisons, false as soon as
  an operand is \<open>NaN\<close>, so \<open>a > b\<close> is written \<open>b < a\<close> and \<open>a >= b\<close> is
  \<open>b \<le> a\<close>.
\<close>

instantiation jsnum :: "{uminus, plus, minus, times, inverse, abs, ord}"
begin

definition uminus_jsnum :: "jsnum \<Rightarrow> jsnum" where
  "uminus_jsnum a = js_neg a"

definition plus_jsnum :: "jsnum \<Rightarrow> jsnum \<Rightarrow> jsnum" where
  "plus_jsnum a b = js_add a b"

definition minus_jsnum :: "jsnum \<Rightarrow> jsnum \<Rightarrow> jsnum" where
  "minus_jsnum a b = js_add a (js_neg b)"

definition times_jsnum :: "jsnum \<Rightarrow> jsnum \<Rightarrow> jsnum" where
  "times_jsnum a b = js_mul a b"

definition divide_jsnum :: "jsnum \<Rightarrow> jsnum \<Rightarrow> jsnum" where
  "divide_jsnum a b = js_div a b"

definition inverse_jsnum :: "jsnum \<Rightarrow> jsnum" where
  "inverse_jsnum a = js_div (Fin 1) a"

definition abs_jsnum :: "jsnum \<Rightarrow> jsnum" where
  "abs_jsnum a = js_abs a"

definition less_jsnum :: "jsnum \<Rightarrow> jsnum \<Rightarrow> bool" where
  "less_jsnum a b = js_lt a b"

definition less_eq_jsnum :: "jsnum \<Rightarrow> jsnum \<Rightarrow> bool" where
  "less_eq_jsnum a b = js_le a b"

instance ..

end

declare uminus_jsnum_def [simp] plus_jsnum_def [simp] minus_jsnum_def [simp]
  times_jsnum_def [simp] divide_jsnum_def [simp] inverse_jsnum_def [simp]
  abs_jsnum_def [simp] less_jsnum_def [simp] less_eq_jsnum_def [simp]

text \<open>\<open>Math.min\<close> and \<open>Math.max\<close> of two numbers: \<open>NaN\<close> as soon as one is.\<close>

definition Math_min :: "jsnum \<Rightarrow> jsnum \<Rightarrow> jsnum" where
  "Math_min a b = (if a = NaN \<or> b = NaN then NaN else if a \<le> b then a else b)"

definition Math_max :: "jsnum \<Rightarrow> jsnum \<Rightarrow> jsnum" where
  "Math_max a b = (if a = NaN \<or> b = NaN then NaN else if a \<le> b then b else a)"

text \<open>\<open>Math.max(...xs)\<close> and \<open>Math.min(...xs)\<close>: \<open>-Infinity\<close> and \<open>Infinity\<close> on no argument.\<close>

definition Math_max_list :: "jsnum list \<Rightarrow> jsnum" where
  "Math_max_list xs = foldl Math_max NInf xs"

definition Math_min_list :: "jsnum list \<Rightarrow> jsnum" where
  "Math_min_list xs = foldl Math_min PInf xs"

fun Math_sqrt :: "jsnum \<Rightarrow> jsnum" where
  "Math_sqrt (Fin x) = (if 0 \<le> x then Fin (sqrt x) else NaN)"
| "Math_sqrt PInf = PInf"
| "Math_sqrt NInf = NaN"
| "Math_sqrt NaN = NaN"

fun Math_ceil :: "jsnum \<Rightarrow> jsnum" where
  "Math_ceil (Fin x) = Fin (of_int \<lceil>x\<rceil>)"
| "Math_ceil a = a"

text \<open>
  Truthiness of a number (\<open>0\<close> and \<open>NaN\<close> are falsy) and of a property that may be
  missing (\<open>undefined\<close> is falsy); \<open>a || b\<close> on numbers; and the coercion of a
  missing property in arithmetic and comparisons, which is \<open>NaN\<close>.
\<close>

fun truthy :: "jsnum \<Rightarrow> bool" where
  "truthy (Fin x) = (x \<noteq> 0)"
| "truthy NaN = False"
| "truthy _ = True"

definition truthy_opt :: "jsnum option \<Rightarrow> bool" where
  "truthy_opt v = (case v of None \<Rightarrow> False | Some a \<Rightarrow> truthy a)"

definition js_or :: "jsnum \<Rightarrow> jsnum \<Rightarrow> jsnum" where
  "js_or a b = (if truthy a then a else b)"

definition to_num :: "jsnum option \<Rightarrow> jsnum" where
  "to_num v = (case v of None \<Rightarrow> NaN | Some a \<Rightarrow> a)"

text \<open>\<open>xs[i]\<close> used as a number: \<open>undefined\<close>, hence \<open>NaN\<close>, out of range.\<close>

definition nth_num :: "jsnum list \<Rightarrow> nat \<Rightarrow> jsnum" where
  "nth_num xs i = (if i < length xs then xs ! i else NaN)"

text \<open>\<open>xs.slice(a, b)\<close> for \<open>0 \<le> a\<close>, and \<open>xs.slice(-n)\<close> for \<open>0 < n\<close>.\<close>

definition slice :: "'a list \<Rightarrow> nat \<Rightarrow> nat \<Rightarrow> 'a list" where
  "slice xs a b = take (b - a) (drop a xs)"

definition slice_last :: "'a list \<Rightarrow> nat \<Rightarrow> 'a list" where
  "slice_last xs n = drop (length xs - n) xs"

text \<open>\<open>s.includes(t)\<close> on strings.\<close>

fun str_includes :: "string \<Rightarrow> string \<Rightarrow> bool" where
  "str_includes [] t = (t = [])"
| "str_includes (c # cs) t = (prefix t (c # cs) \<or> str_includes cs t)"

text \<open>A call either returns or throws; the only exception of the modelled code is the
  \<open>TypeError\<close> of reading a property of \<open>undefined\<close>.\<close>

datatype error = TypeError

section \<open>Data\<close>

text \<open>
  The objects of the source are records. Where two of them share a property name, or a
  name is reserved, the field carries the initial of its record (\<open>s_type\<close>, \<open>p_type\<close>,
  \<open>c_close\<close>, ...).

  A trade setup as the detector builds it: \<open>s_pattern\<close> is set by the pattern strategy
  only; \<open>s_timestamp\<close> is \<open>Date.now()\<close>, which the model takes as an argument.
\<close>

record trade_setup =
  s_type :: string
  direction :: string
  confidence :: jsnum
  entry :: jsnum
  stopLoss :: jsnum
  takeProfit :: jsnum
  riskReward :: jsnum
  signals :: "string list"
  s_pattern :: "string option"
  s_timestamp :: int

text \<open>
  A candle, and the indicator snapshot of one candle. A property of the snapshot that
  has not been assigned is \<open>None\<close> (\<open>undefined\<close> in the source).
\<close>

record candle =
  c_timestamp :: int
  c_open :: jsnum
  c_high :: jsnum
  c_low :: jsnum
  c_close :: jsnum
  c_volume :: jsnum

record indicator =
  i_timestamp :: int
  price :: "jsnum option"
  ema9 :: "jsnum option"
  ema20 :: "jsnum option"
  ema50 :: "jsnum option"
  sma20 :: "jsnum option"
  sma50 :: "jsnum option"
  sma200 :: "jsnum option"
  rsi :: "jsnum option"
  macd :: "jsnum option"
  macdSignal :: "jsnum option"
  macdHistogram :: "jsnum option"
  bollingerUpper :: "jsnum option"
  bollingerMiddle :: "jsnum option"
  bollingerLower :: "jsnum option"
  bollingerBand :: "jsnum option"
  stochK :: "jsnum option"
  stochD :: "jsnum option"
  adx :: "jsnum option"
  atr :: "jsnum option"
  volumeRatio :: "jsnum option"
  volumeMA :: "jsnum option"
  obv :: "jsnum option"

text \<open>
  A detected pattern, with the properties the setup detector reads (\<open>level\<close> and
  \<open>target\<close> exist on some kinds of pattern only); a prediction; a regime.
\<close>

record pattern =
  p_type :: string
  p_direction :: string
  p_confidence :: jsnum
  level :: "jsnum option"
  target :: "jsnum option"
  p_timestamp :: int

record prediction =
  pr_price :: jsnum
  pr_change :: jsnum
  pr_confidence :: jsnum
  pr_direction :: string

record regime_state =
  regime :: string
  r_confidence :: jsnum
  volatility :: jsnum
  priceTrend :: jsnum

record divergence =
  d_type :: string
  strength :: jsnum

record extremum =
  index :: nat
  val :: jsnum

record macd_result =
  m_macd :: jsnum
  m_signal :: jsnum
  m_histogram :: jsnum

record bands =
  upper :: jsnum
  middle :: jsnum
  lower :: jsnum

record stochastic =
  st_k :: jsnum
  st_d :: jsnum

section \<open>Swing extraction (pattern-recognition.js, technical-indicators.js)\<close>

text \<open>
  The inner loop of the four functions looks at every \<open>j\<close> of \<open>i - period .. i + period\<close>
  other than \<open>i\<close> and stops at the first one that disqualifies \<open>i\<close>; the flag it
  leaves is the conjunction over the window. The outer loop pushes in index order.
\<close>

definition isPeak :: "jsnum list \<Rightarrow> nat \<Rightarrow> nat \<Rightarrow> bool" where
  "isPeak data period i =
     list_all (\<lambda>j. \<not> (j \<noteq> i \<and> nth_num data i \<le> nth_num data j)) [i - period ..< i + period + 1]"

definition isTrough :: "jsnum list \<Rightarrow> nat \<Rightarrow> nat \<Rightarrow> bool" where
  "isTrough data period i =
     list_all (\<lambda>j. \<not> (j \<noteq> i \<and> nth_num data j \<le> nth_num data i)) [i - period ..< i + period + 1]"

definition findPeaks :: "jsnum list \<Rightarrow> nat \<Rightarrow> extremum list" where
  "findPeaks data period =
     fold (\<lambda>i peaks. if isPeak data period i
                      then peaks @ [\<lparr>index = i, val = nth_num data i\<rparr>] else peaks)
       [period ..< length data - period] []"

definition findTroughs :: "jsnum list \<Rightarrow> nat \<Rightarrow> extremum list" where
  "findTroughs data period =
     fold (\<lambda>i troughs. if isTrough data period i
                        then troughs @ [\<lparr>index = i, val = nth_num data i\<rparr>] else troughs)
       [period ..< length data - period] []"

definition findSwingHighs :: "jsnum list \<Rightarrow> nat \<Rightarrow> jsnum list" where
  "findSwingHighs data period =
     fold (\<lambda>i highs. if isPeak data period i then highs @ [nth_num data i] else highs)
       [period ..< length data - period] []"

definition findSwingLows :: "jsnum list \<Rightarrow> nat \<Rightarrow> jsnum list" where
  "findSwingLows data period =
     fold (\<lambda>i lows. if isTrough data period i then lows @ [nth_num data i] else lows)
       [period ..< length data - period] []"

definition detectDivergence :: "jsnum list \<Rightarrow> jsnum list \<Rightarrow> nat \<Rightarrow> divergence option" where
  "detectDivergence prices ind periods =
     (if length prices < periods \<or> length ind < periods then None
      else
        let recentPrices = slice_last prices periods;
            recentIndicator = slice_last ind periods;
            priceHighs = findSwingHighs recentPrices 5;
            priceLows = findSwingLows recentPrices 5;
            indHighs = findSwingHighs recentIndicator 5;
            indLows = findSwingLows recentIndicator 5
        in if 2 \<le> length priceLows \<and> 2 \<le> length indLows
              \<and> nth_num priceLows (length priceLows - 1) < nth_num priceLows (length priceLows - 2)
              \<and> nth_num indLows (length indLows - 2) < nth_num indLows (length indLows - 1)
           then Some \<lparr>d_type = ''BULLISH'', strength = Fin 0.8\<rparr>
           else if 2 \<le> length priceHighs \<and> 2 \<le> length indHighs
              \<and> nth_num priceHighs (length priceHighs - 2) < nth_num priceHighs (length priceHighs - 1)
              \<and> nth_num indHighs (length indHighs - 1) < nth_num indHighs (length indHighs - 2)
           then Some \<lparr>d_type = ''BEARISH'', strength = Fin 0.8\<rparr>
           else None)"

section \<open>Indicators (technical-indicators.js)\<close>

text \<open>\<open>data.reduce((a, b) => a + b, 0)\<close>.\<close>

definition sum_list_js :: "jsnum list \<Rightarrow> jsnum" where
  "sum_list_js data = foldl (\<lambda>a b. a + b) (Fin 0) data"

definition SMA :: "jsnum list \<Rightarrow> jsnum" where
  "SMA data = sum_list_js data / Fin (real (length data))"

definition EMA :: "jsnum list \<Rightarrow> nat \<Rightarrow> jsnum" where
  "EMA data period =
     (let multiplier = Fin 2 / (Fin (real period) + Fin 1);
          ema0 = sum_list_js (slice data 0 period) / Fin (real period)
      in fold (\<lambda>i ema. (nth_num data i - ema) * multiplier + ema) [period ..< length data] ema0)"

text \<open>
  \<open>RSI\<close>: the first loop sums the gains and the losses of the first \<open>period\<close>
  changes, the second one smooths the averages over the later changes.
\<close>

definition rsi_sums :: "jsnum list \<Rightarrow> nat \<Rightarrow> jsnum \<times> jsnum \<Rightarrow> jsnum \<times> jsnum" where
  "rsi_sums data i gl =
     (let change = nth_num data i - nth_num data (i - 1)
      in if Fin 0 < change then (fst gl + change, snd gl) else (fst gl, snd gl - change))"

definition rsi_smooth :: "jsnum list \<Rightarrow> nat \<Rightarrow> nat \<Rightarrow> jsnum \<times> jsnum \<Rightarrow> jsnum \<times> jsnum" where
  "rsi_smooth data period i av =
     (let change = nth_num data i - nth_num data (i - 1)
      in if Fin 0 < change
         then ((fst av * (Fin (real period) - Fin 1) + change) / Fin (real period),
               (snd av * (Fin (real period) - Fin 1)) / Fin (real period))
         else ((fst av * (Fin (real period) - Fin 1)) / Fin (real period),
               (snd av * (Fin (real period) - Fin 1) - change) / Fin (real period)))"

definition RSI :: "jsnum list \<Rightarrow> nat \<Rightarrow> jsnum" where
  "RSI data period =
     (if length data < period + 1 then Fin 50
      else
        let gl = fold (rsi_sums data) [1 ..< period + 1] (Fin 0, Fin 0);
            avgGain0 = fst gl / Fin (real period);
            avgLoss0 = snd gl / Fin (real period);
            av = fold (rsi_smooth data period) [period + 1 ..< length data] (avgGain0, avgLoss0);
            rs = fst av / js_or (snd av) (Fin 0.0001)
        in Fin 100 - (Fin 100 / (Fin 1 + rs)))"

definition MACD :: "jsnum list \<Rightarrow> macd_result" where
  "MACD data =
     (let ema12 = EMA data 12;
          ema26 = EMA data 26;
          macd' = ema12 - ema26;
          macdLine = map (\<lambda>i. EMA (slice data 0 (i + 1)) 12 - EMA (slice data 0 (i + 1)) 26)
                       [26 ..< length data];
          signal = (if 9 \<le> length macdLine then EMA macdLine 9 else macd');
          histogram = macd' - signal
      in \<lparr>m_macd = macd', m_signal = signal, m_histogram = histogram\<rparr>)"

definition BollingerBands :: "jsnum list \<Rightarrow> jsnum \<Rightarrow> bands" where
  "BollingerBands data stdDev =
     (let middle' = SMA data;
          squaredDiffs = map (\<lambda>v. (v - middle') * (v - middle')) data;
          variance = sum_list_js squaredDiffs / Fin (real (length data));
          sd = Math_sqrt variance
      in \<lparr>upper = middle' + (stdDev * sd), middle = middle', lower = middle' - (stdDev * sd)\<rparr>)"

definition Stochastic :: "jsnum list \<Rightarrow> jsnum list \<Rightarrow> jsnum list \<Rightarrow> stochastic" where
  "Stochastic highs lows closes =
     (let high = Math_max_list highs;
          low = Math_min_list lows;
          close = nth_num closes (length closes - 1);
          k = ((close - low) / js_or (high - low) (Fin 1)) * Fin 100;
          d = k
      in \<lparr>st_k = k, st_d = d\<rparr>)"

definition trueRange :: "jsnum list \<Rightarrow> jsnum list \<Rightarrow> jsnum list \<Rightarrow> nat \<Rightarrow> jsnum" where
  "trueRange highs lows closes i =
     Math_max_list [nth_num highs i - nth_num lows i,
                    \<bar>nth_num highs i - nth_num closes (i - 1)\<bar>,
                    \<bar>nth_num lows i - nth_num closes (i - 1)\<bar>]"

definition ADX :: "jsnum list \<Rightarrow> jsnum list \<Rightarrow> jsnum list \<Rightarrow> nat \<Rightarrow> jsnum" where
  "ADX highs lows closes period =
     (if length highs < period + 1 then Fin 0
      else
        let (plusDM, minusDM, tr) =
              fold (\<lambda>i (plusDM, minusDM, tr).
                      let highDiff = nth_num highs i - nth_num highs (i - 1);
                          lowDiff = nth_num lows (i - 1) - nth_num lows i
                      in (plusDM + Math_max highDiff (Fin 0),
                          minusDM + Math_max lowDiff (Fin 0),
                          tr + trueRange highs lows closes i))
                [1 ..< length highs] (Fin 0, Fin 0, Fin 0);
            plusDI = (plusDM / tr) * Fin 100;
            minusDI = (minusDM / tr) * Fin 100;
            dx = \<bar>plusDI - minusDI\<bar> / js_or (plusDI + minusDI) (Fin 1) * Fin 100
        in dx)"

definition ATR :: "jsnum list \<Rightarrow> jsnum list \<Rightarrow> jsnum list \<Rightarrow> jsnum" where
  "ATR highs lows closes =
     (let atr' = fold (\<lambda>i atr'. atr' + trueRange highs lows closes i) [1 ..< length highs] (Fin 0)
      in atr' / Fin (real (length highs) - 1))"

text \<open>
  \<open>calculateAll\<close>: the snapshot of candle \<open>i\<close>, given the snapshots pushed so far
  (the on-balance volume reads the previous one), and the loop over the candles. The
  warning printed on fewer than 50 candles is not modelled.
\<close>

definition snapshot :: "candle list \<Rightarrow> nat \<Rightarrow> indicator list \<Rightarrow> indicator" where
  "snapshot candles i indicators =
     (let closes = map c_close candles;
          highs = map c_high candles;
          lows = map c_low candles;
          volumes = map c_volume candles;
          macd' = MACD (slice closes 0 (i + 1));
          bb = BollingerBands (slice closes (i - 19) (i + 1)) (Fin 2);
          stoch = Stochastic (slice highs (i - 13) (i + 1)) (slice lows (i - 13) (i + 1))
                    (slice closes (i - 13) (i + 1));
          avgVolume = SMA (slice volumes (i - 19) (i + 1));
          prevOBV = (if i - 1 < length indicators
                     then js_or (to_num (obv (indicators ! (i - 1)))) (Fin 0) else Fin 0)
      in \<lparr>i_timestamp = c_timestamp (candles ! i),
          price = Some (c_close (candles ! i)),
          ema9 = (if 9 \<le> i then Some (EMA (slice closes 0 (i + 1)) 9) else None),
          ema20 = (if 20 \<le> i then Some (EMA (slice closes 0 (i + 1)) 20) else None),
          ema50 = (if 50 \<le> i then Some (EMA (slice closes 0 (i + 1)) 50) else None),
          sma20 = (if 20 \<le> i then Some (SMA (slice closes (i - 19) (i + 1))) else None),
          sma50 = (if 50 \<le> i then Some (SMA (slice closes (i - 49) (i + 1))) else None),
          sma200 = (if 200 \<le> i then Some (SMA (slice closes (i - 199) (i + 1))) else None),
          rsi = (if 14 \<le> i then Some (RSI (slice closes (i - 14) (i + 1)) 14) else None),
          macd = (if 26 \<le> i then Some (m_macd macd') else None),
          macdSignal = (if 26 \<le> i then Some (m_signal macd') else None),
          macdHistogram = (if 26 \<le> i then Some (m_histogram macd') else None),
          bollingerUpper = (if 20 \<le> i then Some (upper bb) else None),
          bollingerMiddle = (if 20 \<le> i then Some (middle bb) else None),
          bollingerLower = (if 20 \<le> i then Some (lower bb) else None),
          bollingerBand = (if 20 \<le> i
             then Some ((c_close (candles ! i) - lower bb) / (upper bb - lower bb)) else None),
          stochK = (if 14 \<le> i then Some (st_k stoch) else None),
          stochD = (if 14 \<le> i then Some (st_d stoch) else None),
          adx = (if 14 \<le> i
             then Some (ADX (slice highs (i - 14) (i + 1)) (slice lows (i - 14) (i + 1))
                          (slice closes (i - 14) (i + 1)) 14) else None),
          atr = (if 14 \<le> i
             then Some (ATR (slice highs (i - 13) (i + 1)) (slice lows (i - 13) (i + 1))
                          (slice closes (i - 13) (i + 1))) else None),
          volumeRatio = (if 20 \<le> i then Some (c_volume (candles ! i) / avgVolume) else None),
          volumeMA = (if 20 \<le> i then Some avgVolume else None),
          obv = (if 0 < i
             then Some (if c_close (candles ! (i - 1)) < c_close (candles ! i)
                        then prevOBV + c_volume (candles ! i)
                        else if c_close (candles ! i) < c_close (candles ! (i - 1))
                        then prevOBV - c_volume (candles ! i)
                        else prevOBV)
             else None)\<rparr>)"

definition calculateAll :: "candle list \<Rightarrow> indicator list" where
  "calculateAll candles =
     (if length candles < 50 then []
      else fold (\<lambda>i indicators. indicators @ [snapshot candles i indicators])
             [0 ..< length candles] [])"

section \<open>Risk calculator (risk-calculator.js)\<close>

record position =
  quantity :: jsnum
  notionalValue :: jsnum
  riskAmount :: jsnum
  stopDistance :: jsnum
  stopPercent :: jsnum
  leverage :: jsnum
  maxLoss :: jsnum

record risk_reward =
  risk :: jsnum
  reward :: jsnum
  ratio :: jsnum
  riskPercent :: jsnum
  rewardPercent :: jsnum

record kelly =
  fullKelly :: jsnum
  halfKelly :: jsnum
  recommended :: jsnum

record recommendation =
  action :: string
  issues :: "string list"
  score :: jsnum

definition calculatePositionSize :: "jsnum \<Rightarrow> jsnum \<Rightarrow> jsnum \<Rightarrow> jsnum \<Rightarrow> position" where
  "calculatePositionSize entry' stopLoss' accountSize riskPercent' =
     (let riskAmount' = accountSize * (riskPercent' / Fin 100);
          stopDistance' = \<bar>entry' - stopLoss'\<bar>;
          stopPercent' = (stopDistance' / entry') * Fin 100;
          quantity' = riskAmount' / stopDistance';
          notionalValue' = quantity' * entry';
          leverage' = notionalValue' / accountSize
      in \<lparr>quantity = quantity', notionalValue = notionalValue', riskAmount = riskAmount',
          stopDistance = stopDistance', stopPercent = stopPercent',
          leverage = Math_ceil leverage', maxLoss = riskAmount'\<rparr>)"

definition calculateRiskReward :: "jsnum \<Rightarrow> jsnum \<Rightarrow> jsnum \<Rightarrow> risk_reward" where
  "calculateRiskReward entry' stopLoss' takeProfit' =
     (let risk' = \<bar>entry' - stopLoss'\<bar>;
          reward' = \<bar>takeProfit' - entry'\<bar>
      in \<lparr>risk = risk', reward = reward', ratio = reward' / risk',
          riskPercent = (risk' / entry') * Fin 100,
          rewardPercent = (reward' / entry') * Fin 100\<rparr>)"

definition calculateKellyCriterion :: "jsnum \<Rightarrow> jsnum \<Rightarrow> jsnum \<Rightarrow> kelly" where
  "calculateKellyCriterion winRate avgWin avgLoss =
     (let lossRate = Fin 1 - winRate;
          kelly' = (winRate / avgLoss) - (lossRate / avgWin);
          fractionalKelly = kelly' * Fin 0.5
      in \<lparr>fullKelly = Math_max (Fin 0) (Math_min (Fin 1) kelly') * Fin 100,
          halfKelly = Math_max (Fin 0) (Math_min (Fin 1) fractionalKelly) * Fin 100,
          recommended = Math_max (Fin 0) (Math_min (Fin 1) fractionalKelly) * Fin 100\<rparr>)"

definition calculateTradeScore :: "trade_setup \<Rightarrow> risk_reward \<Rightarrow> position \<Rightarrow> jsnum" where
  "calculateTradeScore s rr p =
     (let score0 = Fin 0;
          score1 = score0 + confidence s * Fin 40;
          score2 = score1 + Math_min (Fin 30) ((ratio rr / Fin 3) * Fin 30);
          score3 = score2 + Math_max (Fin 0) (Fin 20 - (stopPercent p * Fin 5));
          score4 = score3 + Math_max (Fin 0) (Fin 10 - leverage p)
      in Math_min (Fin 100) (Math_max (Fin 0) score4))"

text \<open>
  The checks of \<open>getTradeRecommendation\<close> run one after the other on the pair of the
  issues collected so far and the recommendation; each one that fires overwrites the
  recommendation.
\<close>

definition getTradeRecommendation :: "trade_setup \<Rightarrow> risk_reward \<Rightarrow> position \<Rightarrow> recommendation" where
  "getTradeRecommendation s rr p =
     (let st0 = ([] :: string list, ''TAKE_TRADE'');
          st1 = (if ratio rr < Fin 1.5
                 then (fst st0 @ [''Risk/Reward below 1.5:1''], ''REDUCE_SIZE'') else st0);
          st2 = (if Fin 3 < stopPercent p
                 then (fst st1 @ [''Stop loss too wide (>3%)''], ''REDUCE_SIZE'') else st1);
          st3 = (if Fin 10 < leverage p
                 then (fst st2 @ [''Excessive leverage required''], ''SKIP_TRADE'') else st2);
          st4 = (if confidence s < Fin 0.65
                 then (fst st3 @ [''Low setup confidence''], ''WAIT'') else st3);
          st5 = (if length (fst st4) = 0 then (fst st4, ''TAKE_TRADE'') else st4)
      in \<lparr>action = snd st5, issues = fst st5, score = calculateTradeScore s rr p\<rparr>)"

section \<open>Trade setup detector (trade-setup-detector.js)\<close>

record detector =
  activeSetups :: "trade_setup list"
  setupHistory :: "trade_setup list"
  minConfidence :: jsnum

text \<open>The constructor: no setups, threshold \<open>0.60\<close>.\<close>

definition new_detector :: detector where
  "new_detector = \<lparr>activeSetups = [], setupHistory = [], minConfidence = Fin 0.60\<rparr>"

text \<open>\<open>candles[candles.length - 1].close\<close> throws on an empty array.\<close>

definition last_close :: "candle list \<Rightarrow> error + jsnum" where
  "last_close candles = (if candles = [] then Inl TypeError else Inr (c_close (last candles)))"

text \<open>
  Each strategy threads its list of signals and its score through its checks; the
  pairs \<open>st0\<close>, \<open>st1\<close>, ... below are the successive values of \<open>(signals, score)\<close>.
\<close>

definition detectTrendFollowing ::
  "detector \<Rightarrow> candle list \<Rightarrow> indicator \<Rightarrow> prediction option \<Rightarrow> regime_state \<Rightarrow> int
     \<Rightarrow> error + trade_setup option" where
  "detectTrendFollowing d candles ind pred reg now =
     (let st0 = ([] :: string list, Fin 0);
          st1 = (if regime reg = ''BULLISH_TRENDING'' \<or> regime reg = ''BEARISH_TRENDING''
                 then (fst st0 @ [''Trending Market''], snd st0 + Fin 1) else st0);
          maxScore1 = Fin 0 + Fin 1;
          st2 = (if truthy_opt (ema9 ind) \<and> truthy_opt (ema20 ind) \<and> truthy_opt (ema50 ind)
                 then (if to_num (ema20 ind) < to_num (ema9 ind)
                          \<and> to_num (ema50 ind) < to_num (ema20 ind)
                       then (fst st1 @ [''Bullish MA Alignment''], snd st1 + Fin 1.5)
                       else if to_num (ema9 ind) < to_num (ema20 ind)
                          \<and> to_num (ema20 ind) < to_num (ema50 ind)
                       then (fst st1 @ [''Bearish MA Alignment''], snd st1 - Fin 1.5)
                       else st1)
                 else st1);
          maxScore2 = maxScore1 + Fin 1.5;
          st3 = (case pred of
                   None \<Rightarrow> st2
                 | Some p \<Rightarrow>
                     if (Fin 0 < snd st2 \<and> pr_direction p = ''LONG'')
                        \<or> (snd st2 < Fin 0 \<and> pr_direction p = ''SHORT'')
                     then (fst st2 @ [''AI Confirms '' @ pr_direction p],
                           snd st2 + pr_confidence p * Fin 2)
                     else st2);
          maxScore3 = maxScore2 + Fin 2;
          st4 = (if truthy_opt (macd ind) \<and> truthy_opt (macdSignal ind)
                 then (if Fin 0 < snd st3 \<and> to_num (macdSignal ind) < to_num (macd ind)
                       then (fst st3 @ [''MACD Bullish''], snd st3 + Fin 0.8)
                       else if snd st3 < Fin 0 \<and> to_num (macd ind) < to_num (macdSignal ind)
                       then (fst st3 @ [''MACD Bearish''], snd st3 - Fin 0.8)
                       else st3)
                 else st3);
          maxScore = maxScore3 + Fin 0.8;
          normalizedScore = \<bar>snd st4\<bar> / maxScore
      in if minConfidence d \<le> normalizedScore
         then (case last_close candles of
                 Inl e \<Rightarrow> Inl e
               | Inr currentPrice \<Rightarrow>
                   let dir = (if Fin 0 < snd st4 then ''LONG'' else ''SHORT'');
                       atr' = js_or (to_num (atr ind)) (currentPrice * Fin 0.02)
                   in Inr (Some \<lparr>s_type = ''TREND_FOLLOWING'', direction = dir,
                        confidence = normalizedScore, entry = currentPrice,
                        stopLoss = (if dir = ''LONG'' then currentPrice - (atr' * Fin 2)
                                    else currentPrice + (atr' * Fin 2)),
                        takeProfit = (if dir = ''LONG'' then currentPrice + (atr' * Fin 4)
                                      else currentPrice - (atr' * Fin 4)),
                        riskReward = Fin 2.0, signals = fst st4, s_pattern = None,
                        s_timestamp = now\<rparr>))
         else Inr None)"

definition detectMeanReversion ::
  "detector \<Rightarrow> jsnum \<Rightarrow> indicator \<Rightarrow> pattern list \<Rightarrow> int \<Rightarrow> trade_setup option" where
  "detectMeanReversion d price' ind patterns now =
     (if \<not> (to_num (rsi ind) < Fin 30) \<and> \<not> (Fin 70 < to_num (rsi ind)) then None
      else
        let st0 = ([] :: string list, Fin 0);
            st1 = (if to_num (rsi ind) < Fin 30
                   then (fst st0 @ [''RSI Oversold''], snd st0 + Fin 1.5)
                   else (fst st0 @ [''RSI Overbought''], snd st0 - Fin 1.5));
            st2 = (if bollingerBand ind \<noteq> None
                   then (if to_num (bollingerBand ind) < Fin 0.1
                         then (fst st1 @ [''At Lower BB''], snd st1 + Fin 1)
                         else if Fin 0.9 < to_num (bollingerBand ind)
                         then (fst st1 @ [''At Upper BB''], snd st1 - Fin 1)
                         else st1)
                   else st1);
            reversalPatterns = filter (\<lambda>p. (Fin 0 < snd st2 \<and> p_direction p = ''BULLISH'')
                                        \<or> (snd st2 < Fin 0 \<and> p_direction p = ''BEARISH'')) patterns;
            st3 = (if 0 < length reversalPatterns
                   then (fst st2 @ [''Pattern: '' @ p_type (hd reversalPatterns)],
                         snd st2 + p_confidence (hd reversalPatterns))
                   else st2);
            conf = Math_min (Fin 0.95) (\<bar>snd st3\<bar> / Fin 3.5)
        in if minConfidence d \<le> conf
           then
             let dir = (if Fin 0 < snd st3 then ''LONG'' else ''SHORT'');
                 stopLossDistance = price' * Fin 0.015
             in Some \<lparr>s_type = ''MEAN_REVERSION'', direction = dir, confidence = conf,
                  entry = price',
                  stopLoss = (if dir = ''LONG'' then price' - stopLossDistance
                              else price' + stopLossDistance),
                  takeProfit = (if dir = ''LONG''
                                then js_or (to_num (bollingerMiddle ind)) (price' * Fin 1.02)
                                else js_or (to_num (bollingerMiddle ind)) (price' * Fin 0.98)),
                  riskReward = Fin 2.0, signals = fst st3, s_pattern = None,
                  s_timestamp = now\<rparr>
           else None)"

definition detectBreakout ::
  "detector \<Rightarrow> candle list \<Rightarrow> indicator \<Rightarrow> pattern list \<Rightarrow> int \<Rightarrow> error + trade_setup option" where
  "detectBreakout d candles ind patterns now =
     (case last_close candles of
        Inl e \<Rightarrow> Inl e
      | Inr currentPrice \<Rightarrow>
          let recentHigh = Math_max_list (map c_high (slice_last candles 20));
              recentLow = Math_min_list (map c_low (slice_last candles 20));
              breakingHigh = (recentHigh * Fin 1.001 < currentPrice);
              breakingLow = (currentPrice < recentLow * Fin 0.999)
          in if \<not> breakingHigh \<and> \<not> breakingLow then Inr None
             else
               let st0 = ([] :: string list, Fin 0);
                   st1 = (if breakingHigh
                          then (fst st0 @ [''Breaking Recent High''], snd st0 + Fin 1.5)
                          else (fst st0 @ [''Breaking Recent Low''], snd st0 - Fin 1.5));
                   st2 = (if Fin 1.5 < to_num (volumeRatio ind)
                          then (fst st1 @ [''High Volume Breakout''],
                                snd st1 + (if Fin 0 < snd st1 then Fin 1 else Fin (- 1)))
                          else st1);
                   breakoutPatterns = filter (\<lambda>p. str_includes (p_type p) ''TRIANGLE''
                                                \<or> str_includes (p_type p) ''FLAG'') patterns;
                   st3 = (if 0 < length breakoutPatterns
                          then (fst st2 @ [''Pattern: '' @ p_type (hd breakoutPatterns)],
                                snd st2 + p_confidence (hd breakoutPatterns))
                          else st2);
                   conf = Math_min (Fin 0.95) (\<bar>snd st3\<bar> / Fin 3.5)
               in if minConfidence d \<le> conf
                  then
                    let dir = (if Fin 0 < snd st3 then ''LONG'' else ''SHORT'');
                        range = recentHigh - recentLow
                    in Inr (Some \<lparr>s_type = ''BREAKOUT'', direction = dir, confidence = conf,
                         entry = currentPrice,
                         stopLoss = (if dir = ''LONG'' then recentHigh * Fin 0.995
                                     else recentLow * Fin 1.005),
                         takeProfit = (if dir = ''LONG'' then currentPrice + range
                                       else currentPrice - range),
                         riskReward = Fin 2.0, signals = fst st3, s_pattern = None,
                         s_timestamp = now\<rparr>)
                  else Inr None)"

text \<open>
  \<open>detectPatternTrade\<close>. The best pattern is \<open>patterns.reduce\<close> without an initial
  value: the first pattern, replaced by each later one of strictly higher confidence. A
  missing \<open>level\<close> makes the stop \<open>NaN\<close>; an entry that is \<open>undefined\<close> (no level and
  no price) is recorded as \<open>NaN\<close>, its value as a number.
\<close>

definition detectPatternTrade ::
  "detector \<Rightarrow> pattern list \<Rightarrow> indicator \<Rightarrow> prediction option \<Rightarrow> int \<Rightarrow> trade_setup option" where
  "detectPatternTrade d patterns ind pred now =
     (if length patterns = 0 then None
      else
        let bestPattern = foldl (\<lambda>best current.
                                   if p_confidence best < p_confidence current then current else best)
                            (hd patterns) (tl patterns)
        in if p_confidence bestPattern < minConfidence d then None
           else
             let st0 = ([''Pattern: '' @ p_type bestPattern], p_confidence bestPattern);
                 st1 = (if p_direction bestPattern = ''BULLISH'' \<and> to_num (rsi ind) < Fin 50
                        then (fst st0 @ [''RSI Below 50''], snd st0 + Fin 0.05)
                        else if p_direction bestPattern = ''BEARISH'' \<and> Fin 50 < to_num (rsi ind)
                        then (fst st0 @ [''RSI Above 50''], snd st0 + Fin 0.05)
                        else st0);
                 st2 = (case pred of
                          None \<Rightarrow> st1
                        | Some p \<Rightarrow>
                            if pr_direction p = p_direction bestPattern
                            then (fst st1 @ [''AI Confirms''], snd st1 + Fin 0.1)
                            else st1);
                 conf = Math_min (Fin 0.95) (snd st2)
             in if truthy_opt (target bestPattern)
                then Some \<lparr>s_type = ''PATTERN_TRADE'', direction = p_direction bestPattern,
                       confidence = conf,
                       entry = (if truthy_opt (level bestPattern) then to_num (level bestPattern)
                                else to_num (price ind)),
                       stopLoss = (if p_direction bestPattern = ''BULLISH''
                                   then to_num (level bestPattern) * Fin 0.98
                                   else to_num (level bestPattern) * Fin 1.02),
                       takeProfit = to_num (target bestPattern),
                       riskReward = Fin 2.0, signals = fst st2,
                       s_pattern = Some (p_type bestPattern), s_timestamp = now\<rparr>
                else None)"

definition rsi_defined :: "indicator list \<Rightarrow> jsnum list" where
  "rsi_defined inds = map to_num (filter (\<lambda>v. v \<noteq> None) (map rsi inds))"

definition detectDivergenceTrade ::
  "candle list \<Rightarrow> indicator list \<Rightarrow> int \<Rightarrow> error + trade_setup option" where
  "detectDivergenceTrade candles indicators now =
     (if length indicators < 20 then Inr None
      else
        let prices = map c_close (slice_last candles 20);
            rsiValues = rsi_defined (slice_last indicators 20)
        in if length rsiValues < 20 then Inr None
           else (case detectDivergence prices rsiValues 20 of
                   None \<Rightarrow> Inr None
                 | Some dv \<Rightarrow>
                     (case last_close candles of
                        Inl e \<Rightarrow> Inl e
                      | Inr currentPrice \<Rightarrow>
                          Inr (Some \<lparr>s_type = ''DIVERGENCE'',
                                 direction = (if d_type dv = ''BULLISH'' then ''LONG'' else ''SHORT''),
                                 confidence = strength dv, entry = currentPrice,
                                 stopLoss = (if d_type dv = ''BULLISH'' then currentPrice * Fin 0.98
                                             else currentPrice * Fin 1.02),
                                 takeProfit = (if d_type dv = ''BULLISH'' then currentPrice * Fin 1.04
                                               else currentPrice * Fin 0.96),
                                 riskReward = Fin 2.0,
                                 signals = [d_type dv @ '' Divergence (RSI)''],
                                 s_pattern = None, s_timestamp = now\<rparr>))))"

text \<open>
  \<open>validSetups.sort((a, b) => b.confidence - a.confidence)\<close>. The sort of the language
  is stable and orders by the sign of the comparator, a \<open>NaN\<close> result counting as
  \<open>0\<close>; it is modelled as the stable insertion sort that places \<open>a\<close> behind \<open>b\<close>
  exactly when the comparator is positive on \<open>(a, b)\<close>.
\<close>

definition byConfidence :: "trade_setup \<Rightarrow> trade_setup \<Rightarrow> jsnum" where
  "byConfidence a b = confidence b - confidence a"

fun js_insert :: "('a \<Rightarrow> 'a \<Rightarrow> jsnum) \<Rightarrow> 'a \<Rightarrow> 'a list \<Rightarrow> 'a list" where
  "js_insert cmp a [] = [a]"
| "js_insert cmp a (b # bs) = (if Fin 0 < cmp a b then b # js_insert cmp a bs else a # b # bs)"

definition js_sort :: "('a \<Rightarrow> 'a \<Rightarrow> jsnum) \<Rightarrow> 'a list \<Rightarrow> 'a list" where
  "js_sort cmp xs = foldr (js_insert cmp) xs []"

text \<open>
  \<open>analyzeMarket\<close> returns the valid setups and stores them as the active ones (it is
  \<open>async\<close>: the result is what its promise resolves to, a throw is the rejection). On no
  candle it throws at once; on no indicator snapshot \<open>latestIndicator\<close> is
  \<open>undefined\<close> and the first strategy throws when it reads \<open>indicator.ema9\<close>.
  \<open>opt_list\<close> is the \<open>if (x) setups.push(x)\<close> of each strategy.
\<close>

definition opt_list :: "'a option \<Rightarrow> 'a list" where
  "opt_list x = (case x of None \<Rightarrow> [] | Some a \<Rightarrow> [a])"

definition analyzeMarket ::
  "detector \<Rightarrow> candle list \<Rightarrow> indicator list \<Rightarrow> pattern list \<Rightarrow> prediction option
     \<Rightarrow> regime_state \<Rightarrow> int \<Rightarrow> error + (trade_setup list \<times> detector)" where
  "analyzeMarket d candles indicators patterns pred reg now =
     (case last_close candles of
        Inl e \<Rightarrow> Inl e
      | Inr currentPrice \<Rightarrow>
         (if indicators = [] then Inl TypeError
          else
            (let latestIndicator = last indicators
             in (case detectTrendFollowing d candles latestIndicator pred reg now of
                   Inl e \<Rightarrow> Inl e
                 | Inr trendSetup \<Rightarrow>
                    (let reversionSetup =
                           detectMeanReversion d currentPrice latestIndicator patterns now
                     in (case detectBreakout d candles latestIndicator patterns now of
                           Inl e \<Rightarrow> Inl e
                         | Inr breakoutSetup \<Rightarrow>
                            (let patternSetup =
                                   detectPatternTrade d patterns latestIndicator pred now
                             in (case detectDivergenceTrade candles indicators now of
                                   Inl e \<Rightarrow> Inl e
                                 | Inr divergenceSetup \<Rightarrow>
                                    (let setups = opt_list trendSetup @ opt_list reversionSetup
                                           @ opt_list breakoutSetup @ opt_list patternSetup
                                           @ opt_list divergenceSetup;
                                         validSetups =
                                           filter (\<lambda>s. minConfidence d \<le> confidence s) setups;
                                         sorted' = js_sort byConfidence validSetups
                                     in Inr (sorted', d\<lparr>activeSetups := sorted'\<rparr>))))))))))"

text \<open>
  The ordering that the specification asks of a setup (stop below entry below target for
  LONG, mirrored for SHORT), and its half about the stop alone. These two predicates
  follow the words of the specification, not a function of the source.
\<close>

definition sides_ok :: "trade_setup \<Rightarrow> bool" where
  "sides_ok s =
     ((direction s = ''LONG'' \<longrightarrow> stopLoss s < entry s \<and> entry s < takeProfit s)
      \<and> (direction s = ''SHORT'' \<longrightarrow> takeProfit s < entry s \<and> entry s < stopLoss s))"

definition stop_ok :: "trade_setup \<Rightarrow> bool" where
  "stop_ok s =
     ((direction s = ''LONG'' \<longrightarrow> stopLoss s < entry s)
      \<and> (direction s = ''SHORT'' \<longrightarrow> entry s < stopLoss s))"

section \<open>Example inputs\<close>

text \<open>
  Concrete inputs at which the theorems below are instantiated or the code is evaluated.
  The risk example is the one of the project's feature guide (entry 42800, stop 42400,
  target 44000).
\<close>

definition ex_setup :: "jsnum \<Rightarrow> trade_setup" where
  "ex_setup c = \<lparr>s_type = ''TREND_FOLLOWING'', direction = ''LONG'', confidence = c,
      entry = Fin 42800, stopLoss = Fin 42400, takeProfit = Fin 44000, riskReward = Fin 2.0,
      signals = [], s_pattern = None, s_timestamp = 0\<rparr>"

definition ex_rr :: "jsnum \<Rightarrow> risk_reward" where
  "ex_rr r = \<lparr>risk = Fin 400, reward = Fin 1200, ratio = r, riskPercent = Fin 0.93,
      rewardPercent = Fin 2.8\<rparr>"

definition ex_position :: "jsnum \<Rightarrow> jsnum \<Rightarrow> position" where
  "ex_position sp lev = \<lparr>quantity = Fin 0.25, notionalValue = Fin 10700, riskAmount = Fin 100,
      stopDistance = Fin 400, stopPercent = sp, leverage = lev, maxLoss = Fin 100\<rparr>"

text \<open>A series with one peak (index 5) and one trough (index 11) for the radius 5.\<close>

definition zigzag :: "jsnum list" where
  "zigzag = map Fin [1, 2, 3, 4, 5, 6, 5, 4, 3, 2, 1, 0, 1, 2, 3, 4, 5]"



text \<open>
  A candle closing at 185, and two complete snapshots as \<open>calculateAll\<close> builds them
  from the 50th candle on: one oversold (RSI 25) with the close above the Bollinger
  middle 174, as after a sharp rise followed by a slow decline; one in a calm uptrend.
\<close>

definition ex_candle :: candle where
  "ex_candle = \<lparr>c_timestamp = 1700000000000, c_open = Fin 184, c_high = Fin 187, c_low = Fin 183,
      c_close = Fin 185, c_volume = Fin 1200\<rparr>"

definition oversold_snapshot :: indicator where
  "oversold_snapshot = \<lparr>i_timestamp = 1700000000000, price = Some (Fin 185),
      ema9 = Some (Fin 189), ema20 = Some (Fin 181), ema50 = Some (Fin 139),
      sma20 = Some (Fin 174), sma50 = Some (Fin 125.5), sma200 = None,
      rsi = Some (Fin 25),
      macd = Some (Fin 14), macdSignal = Some (Fin 16), macdHistogram = Some (Fin (- 2)),
      bollingerUpper = Some (Fin 248.46), bollingerMiddle = Some (Fin 174),
      bollingerLower = Some (Fin 99.54), bollingerBand = Some (Fin 0.574),
      stochK = Some (Fin 5), stochD = Some (Fin 5), adx = Some (Fin 40), atr = Some (Fin 3),
      volumeRatio = Some (Fin 1), volumeMA = Some (Fin 1200), obv = Some (Fin (- 5000))\<rparr>"

definition trending_snapshot :: indicator where
  "trending_snapshot = \<lparr>i_timestamp = 1700000000000, price = Some (Fin 185),
      ema9 = Some (Fin 184), ema20 = Some (Fin 180), ema50 = Some (Fin 170),
      sma20 = Some (Fin 179), sma50 = Some (Fin 168), sma200 = None,
      rsi = Some (Fin 62),
      macd = Some (Fin 2.5), macdSignal = Some (Fin 1.8), macdHistogram = Some (Fin 0.7),
      bollingerUpper = Some (Fin 190), bollingerMiddle = Some (Fin 179),
      bollingerLower = Some (Fin 168), bollingerBand = Some (Fin 0.77),
      stochK = Some (Fin 80), stochD = Some (Fin 80), adx = Some (Fin 30), atr = Some (Fin 3),
      volumeRatio = Some (Fin 1.1), volumeMA = Some (Fin 1200), obv = Some (Fin 9000)\<rparr>"

text \<open>Patterns as the pattern engine builds them: an engulfing candle has neither level
  nor target, a double bottom has both.\<close>

definition engulfing :: pattern where
  "engulfing = \<lparr>p_type = ''BULLISH_ENGULFING'', p_direction = ''BULLISH'', p_confidence = Fin 0.70,
      level = None, target = None, p_timestamp = 1700000000000\<rparr>"

definition double_bottom :: pattern where
  "double_bottom = \<lparr>p_type = ''DOUBLE_BOTTOM'', p_direction = ''BULLISH'', p_confidence = Fin 0.70,
      level = Some (Fin 180), target = Some (Fin 200), p_timestamp = 1700000000000\<rparr>"

definition long_prediction :: prediction where
  "long_prediction = \<lparr>pr_price = Fin 188, pr_change = Fin 1.6, pr_confidence = Fin 0.9,
      pr_direction = ''LONG''\<rparr>"

definition ranging :: regime_state where
  "ranging = \<lparr>regime = ''RANGING'', r_confidence = Fin 0.5, volatility = Fin 0.02,
      priceTrend = Fin 0\<rparr>"

definition trending :: regime_state where
  "trending = \<lparr>regime = ''BULLISH_TRENDING'', r_confidence = Fin 0.75, volatility = Fin 0.02,
      priceTrend = Fin 0.03\<rparr>"

text \<open>The setups the detector builds on these inputs (at the time 1700000060000).\<close>

definition trend_setup_1 :: trade_setup where
  "trend_setup_1 = \<lparr>s_type = ''TREND_FOLLOWING'', direction = ''LONG'',
      confidence = Fin (51 / 53), entry = Fin 185, stopLoss = Fin 179, takeProfit = Fin 197,
      riskReward = Fin 2,
      signals = [''Trending Market'', ''Bullish MA Alignment'', ''AI Confirms LONG'',
                 ''MACD Bullish''],
      s_pattern = None, s_timestamp = 1700000060000\<rparr>"

definition pattern_setup_1 :: trade_setup where
  "pattern_setup_1 = \<lparr>s_type = ''PATTERN_TRADE'', direction = ''BULLISH'', confidence = Fin 0.75,
      entry = Fin 180, stopLoss = Fin 176.4, takeProfit = Fin 200, riskReward = Fin 2,
      signals = [''Pattern: DOUBLE_BOTTOM'', ''RSI Below 50''],
      s_pattern = Some ''DOUBLE_BOTTOM'', s_timestamp = 1700000060000\<rparr>"

definition reversion_setup_1 :: trade_setup where
  "reversion_setup_1 = \<lparr>s_type = ''MEAN_REVERSION'', direction = ''LONG'',
      confidence = Fin (22 / 35), entry = Fin 185, stopLoss = Fin 182.225, takeProfit = Fin 174,
      riskReward = Fin 2, signals = [''RSI Oversold'', ''Pattern: DOUBLE_BOTTOM''],
      s_pattern = None, s_timestamp = 1700000060000\<rparr>"

definition reversion_setup_2 :: trade_setup where
  "reversion_setup_2 = \<lparr>s_type = ''MEAN_REVERSION'', direction = ''LONG'',
      confidence = Fin (22 / 35), entry = Fin 185, stopLoss = Fin 182.225, takeProfit = Fin 174,
      riskReward = Fin 2, signals = [''RSI Oversold'', ''Pattern: BULLISH_ENGULFING''],
      s_pattern = None, s_timestamp = 1700000060000\<rparr>"

section \<open>Loops over index ranges\<close>


lemma fold_push:
  "fold (\<lambda>i acc. if P i then acc @ [f i] else acc) xs acc = acc @ map f (filter P xs)"
  by (induction xs arbitrary: acc) auto

section \<open>Risk calculator: Kelly sizing, trade score, recommendation, risk/reward\<close>

text \<open>
  C5, as stated: \<open>calculateKellyCriterion(0.55, 0.025, 0.01)\<close> returns a full Kelly of
  about 15 percent (within one point) and a half Kelly of about 7.5 percent, by the
  formula \<open>winRate / avgLoss - (1 - winRate) / avgWin\<close> clamped to \<open>[0, 1]\<close>. It
  fails by its own formula: the raw value \<open>0.55 / 0.01 - 0.45 / 0.025\<close> is 37 and its
  half 18.5, both are clamped to 1, and the call returns 100 for the full and for the half
  Kelly, neither within a point of 15 or of 7.5.
\<close>

theorem kelly_example_counterexample:
  "fullKelly (calculateKellyCriterion (Fin 0.55) (Fin 0.025) (Fin 0.01)) = Fin 100
   \<and> halfKelly (calculateKellyCriterion (Fin 0.55) (Fin 0.025) (Fin 0.01)) = Fin 100
   \<and> \<not> (Fin 100 \<le> Fin 16) \<and> \<not> (Fin 100 \<le> Fin 8.5)"
  by (simp add: calculateKellyCriterion_def Math_min_def Math_max_def)

text \<open>
  C5, amended: for finite arguments with non-zero average win and loss,
  \<open>calculateKellyCriterion\<close> computes \<open>k = winRate / avgLoss - (1 - winRate) / avgWin\<close>
  and returns the full Kelly \<open>k\<close> clamped to \<open>[0, 1]\<close> times 100, and as half (and
  recommended) Kelly \<open>0.5 * k\<close> clamped to \<open>[0, 1]\<close> times 100, which is half the full
  Kelly only where nothing is clamped; at \<open>(0.55, 0.025, 0.01)\<close> it returns 100 and 100.
\<close>

theorem kelly_formula:
  "avgWin \<noteq> 0 \<Longrightarrow> avgLoss \<noteq> 0 \<Longrightarrow>
     calculateKellyCriterion (Fin winRate) (Fin avgWin) (Fin avgLoss) =
       \<lparr>fullKelly = Fin (max 0 (min 1 (winRate / avgLoss - (1 - winRate) / avgWin)) * 100),
        halfKelly = Fin (max 0 (min 1 ((winRate / avgLoss - (1 - winRate) / avgWin) * 0.5)) * 100),
        recommended = Fin (max 0 (min 1 ((winRate / avgLoss - (1 - winRate) / avgWin) * 0.5)) * 100)\<rparr>"
  by (simp add: calculateKellyCriterion_def Math_min_def Math_max_def Let_def max_def min_def)

theorem kelly_formula_witness:
  "(0.025 :: real) \<noteq> 0 \<and> (0.01 :: real) \<noteq> 0
   \<and> calculateKellyCriterion (Fin 0.55) (Fin 0.025) (Fin 0.01) =
       \<lparr>fullKelly = Fin 100, halfKelly = Fin 100, recommended = Fin 100\<rparr>"
proof -
  have a: "(0.025 :: real) \<noteq> 0" and b: "(0.01 :: real) \<noteq> 0" by simp_all
  show ?thesis using kelly_formula [OF a b, of "0.55"] by simp
qed

text \<open>
  C6, as stated: \<open>calculateTradeScore\<close> on confidence 0.82, ratio 3.0, stop percent
  0.93 and leverage 11 returns about 91, by the component formula. It fails by its own
  formula: the four components are \<open>0.82 * 40 = 32.8\<close>, \<open>min(30, 30) = 30\<close>,
  \<open>max(0, 20 - 4.65) = 15.35\<close> and \<open>max(0, 10 - 11) = 0\<close>, and the score is 78.15.
\<close>

theorem trade_score_counterexample:
  "calculateTradeScore (ex_setup (Fin 0.82)) (ex_rr (Fin 3.0)) (ex_position (Fin 0.93) (Fin 11))
     = Fin 78.15 \<and> \<not> (Fin 90 \<le> Fin 78.15)"
  by (simp add: calculateTradeScore_def ex_setup_def ex_rr_def ex_position_def Math_min_def Math_max_def)

text \<open>
  C6, amended: for a finite confidence, ratio, stop percent and leverage,
  \<open>calculateTradeScore\<close> returns
  \<open>40 * confidence + min(30, (ratio / 3) * 30) + max(0, 20 - stopPercent * 5)
  + max(0, 10 - leverage)\<close> clamped to \<open>[0, 100]\<close>; on confidence 0.82, ratio 3.0, stop
  percent 0.93 and leverage 11 that is 78.15.
\<close>

theorem trade_score_formula:
  "confidence s = Fin c \<Longrightarrow> ratio rr = Fin r \<Longrightarrow> stopPercent p = Fin sp \<Longrightarrow> leverage p = Fin lev \<Longrightarrow>
     calculateTradeScore s rr p =
       Fin (min 100 (max 0 (c * 40 + min 30 (r / 3 * 30) + max 0 (20 - sp * 5) + max 0 (10 - lev))))"
  by (simp add: calculateTradeScore_def Math_min_def Math_max_def Let_def max_def min_def)

theorem trade_score_formula_witness:
  "confidence (ex_setup (Fin 0.82)) = Fin 0.82 \<and> ratio (ex_rr (Fin 3.0)) = Fin 3.0
   \<and> stopPercent (ex_position (Fin 0.93) (Fin 11)) = Fin 0.93
   \<and> leverage (ex_position (Fin 0.93) (Fin 11)) = Fin 11
   \<and> calculateTradeScore (ex_setup (Fin 0.82)) (ex_rr (Fin 3.0)) (ex_position (Fin 0.93) (Fin 11))
       = Fin 78.15"
proof -
  have a: "confidence (ex_setup (Fin 0.82)) = Fin 0.82" by (simp add: ex_setup_def)
  have b: "ratio (ex_rr (Fin 3.0)) = Fin 3.0" by (simp add: ex_rr_def)
  have c: "stopPercent (ex_position (Fin 0.93) (Fin 11)) = Fin 0.93" by (simp add: ex_position_def)
  have d: "leverage (ex_position (Fin 0.93) (Fin 11)) = Fin 11" by (simp add: ex_position_def)
  show ?thesis using a b c d trade_score_formula [OF a b c d] by simp
qed

text \<open>
  C7, as stated: with a leverage above 10 the action is \<open>SKIP_TRADE\<close> whatever the
  confidence. It fails: the confidence check runs after the leverage check and overwrites
  the recommendation, so leverage 11 with confidence 0.6 gives \<open>WAIT\<close>.
\<close>

theorem recommendation_leverage_counterexample:
  "Fin 10 < leverage (ex_position (Fin 0.93) (Fin 11)) \<and>
   action (getTradeRecommendation (ex_setup (Fin 0.6)) (ex_rr (Fin 3.0))
             (ex_position (Fin 0.93) (Fin 11))) = ''WAIT''"
  by (simp add: getTradeRecommendation_def ex_setup_def ex_rr_def ex_position_def)

text \<open>
  C7, amended: for every setup, risk/reward and position with a leverage above 10, the
  action is \<open>WAIT\<close> when the setup's confidence is below 0.65 and \<open>SKIP_TRADE\<close>
  otherwise (a \<open>NaN\<close> confidence is not below 0.65).
\<close>

theorem recommendation_leverage:
  "Fin 10 < leverage p \<Longrightarrow>
     action (getTradeRecommendation s rr p) =
       (if confidence s < Fin 0.65 then ''WAIT'' else ''SKIP_TRADE'')"
  by (simp add: getTradeRecommendation_def Let_def)

theorem recommendation_leverage_witness:
  "Fin 10 < leverage (ex_position (Fin 0.93) (Fin 11)) \<and>
   action (getTradeRecommendation (ex_setup (Fin 0.82)) (ex_rr (Fin 3.0))
             (ex_position (Fin 0.93) (Fin 11))) = ''SKIP_TRADE''"
proof -
  have h: "Fin 10 < leverage (ex_position (Fin 0.93) (Fin 11))"
    by (simp add: ex_position_def)
  show ?thesis
    using h recommendation_leverage [OF h, of "ex_setup (Fin 0.82)" "ex_rr (Fin 3.0)"]
    by (simp add: ex_setup_def)
qed

text \<open>
  C9, as stated: when entry and stop coincide the input is rejected. It fails: on entry
  100, stop 100 and target 110 the call returns a complete record whose ratio is
  \<open>Infinity\<close>, and the recommendation built from that record is \<open>TAKE_TRADE\<close> with
  no issue and the full 30 points of the risk/reward component.
\<close>

theorem risk_reward_counterexample:
  "calculateRiskReward (Fin 100) (Fin 100) (Fin 110) =
     \<lparr>risk = Fin 0, reward = Fin 10, ratio = PInf, riskPercent = Fin 0, rewardPercent = Fin 10\<rparr>
   \<and> getTradeRecommendation (ex_setup (Fin 0.82)) (calculateRiskReward (Fin 100) (Fin 100) (Fin 110))
        (ex_position (Fin 0.93) (Fin 3))
      = \<lparr>action = ''TAKE_TRADE'', issues = [], score = Fin 85.15\<rparr>"
  by (simp add: Let_def calculateRiskReward_def getTradeRecommendation_def calculateTradeScore_def
      ex_setup_def ex_position_def Math_min_def Math_max_def)

text \<open>
  C9, amended: for finite entry, stop and target, the ratio returned by
  \<open>calculateRiskReward\<close> is \<open>|target - entry| / |entry - stop|\<close> when entry and stop
  differ; when they coincide the call still returns its record, with the ratio
  \<open>Infinity\<close> if the target differs from the entry and \<open>NaN\<close> if it does not.
\<close>

theorem risk_reward_ratio:
  "(e \<noteq> s \<longrightarrow> ratio (calculateRiskReward (Fin e) (Fin s) (Fin t)) = Fin (\<bar>t - e\<bar> / \<bar>e - s\<bar>))
   \<and> (e = s \<and> t \<noteq> e \<longrightarrow> ratio (calculateRiskReward (Fin e) (Fin s) (Fin t)) = PInf)
   \<and> (e = s \<and> t = e \<longrightarrow> ratio (calculateRiskReward (Fin e) (Fin s) (Fin t)) = NaN)"
  by (simp add: calculateRiskReward_def Let_def)

theorem risk_reward_ratio_witness:
  "ratio (calculateRiskReward (Fin 100) (Fin 95) (Fin 110)) = Fin 2
   \<and> ratio (calculateRiskReward (Fin 100) (Fin 100) (Fin 110)) = PInf
   \<and> ratio (calculateRiskReward (Fin 100) (Fin 100) (Fin 100)) = NaN"
  using risk_reward_ratio [of 100 95 110] risk_reward_ratio [of 100 100 110]
    risk_reward_ratio [of 100 100 100]
  by simp

section \<open>Swing extraction: reported indices\<close>

lemma findPeaks_filter:
  "findPeaks data period =
     map (\<lambda>i. \<lparr>index = i, val = nth_num data i\<rparr>)
       (filter (isPeak data period) [period ..< length data - period])"
  unfolding findPeaks_def by (simp add: fold_push)

lemma findTroughs_filter:
  "findTroughs data period =
     map (\<lambda>i. \<lparr>index = i, val = nth_num data i\<rparr>)
       (filter (isTrough data period) [period ..< length data - period])"
  unfolding findTroughs_def by (simp add: fold_push)

lemma findSwingHighs_filter:
  "findSwingHighs data period =
     map (nth_num data) (filter (isPeak data period) [period ..< length data - period])"
  unfolding findSwingHighs_def by (simp add: fold_push)

lemma findSwingLows_filter:
  "findSwingLows data period =
     map (nth_num data) (filter (isTrough data period) [period ..< length data - period])"
  unfolding findSwingLows_def by (simp add: fold_push)

text \<open>
  C10. For every series and radius \<open>period\<close>, \<open>findPeaks\<close> and \<open>findTroughs\<close>
  report only indices \<open>i\<close> with \<open>period \<le> i\<close> and \<open>i \<le> length - period - 1\<close> (written
  \<open>i + period < length\<close>), each with the value of the series there; every value that
  \<open>findSwingHighs\<close> and \<open>findSwingLows\<close> report is the value of the series at such an
  index. So no index among the last \<open>period\<close> positions is reported.
\<close>

theorem swing_indices_in_range:
  "(\<forall>p \<in> set (findPeaks data period).
      period \<le> index p \<and> index p + period < length data \<and> val p = data ! index p)
   \<and> (\<forall>p \<in> set (findTroughs data period).
      period \<le> index p \<and> index p + period < length data \<and> val p = data ! index p)
   \<and> (\<forall>v \<in> set (findSwingHighs data period).
      \<exists>i. period \<le> i \<and> i + period < length data \<and> v = data ! i)
   \<and> (\<forall>v \<in> set (findSwingLows data period).
      \<exists>i. period \<le> i \<and> i + period < length data \<and> v = data ! i)"
  by (auto simp: findPeaks_filter findTroughs_filter findSwingHighs_filter findSwingLows_filter
      nth_num_def)

theorem swing_indices_in_range_witness:
  "findPeaks zigzag 5 = [\<lparr>index = 5, val = Fin 6\<rparr>]
   \<and> findTroughs zigzag 5 = [\<lparr>index = 11, val = Fin 0\<rparr>]
   \<and> findSwingHighs zigzag 5 = [Fin 6]
   \<and> findSwingLows zigzag 5 = [Fin 0]
   \<and> (5 :: nat) + 5 < length zigzag \<and> (11 :: nat) + 5 < length zigzag
   \<and> zigzag ! 5 = Fin 6 \<and> zigzag ! 11 = Fin 0"
proof -
  have e: "findPeaks zigzag 5 = [\<lparr>index = 5, val = Fin 6\<rparr>]"
    "findTroughs zigzag 5 = [\<lparr>index = 11, val = Fin 0\<rparr>]"
    "findSwingHighs zigzag 5 = [Fin 6]" "findSwingLows zigzag 5 = [Fin 0]"
    by code_simp+
  show ?thesis
    using swing_indices_in_range [of zigzag 5] unfolding e by (simp add: zigzag_def)
qed

section \<open>RSI\<close>










section \<open>calculateAll: one snapshot per candle\<close>

lemma fold_snapshot_upt:
  "length (fold (\<lambda>i inds. inds @ [g i inds]) [0 ..< n] []) = n
   \<and> (\<forall>i < n. \<exists>prev. fold (\<lambda>i inds. inds @ [g i inds]) [0 ..< n] [] ! i = g i prev)"
proof (induction n)
  case 0
  then show ?case by simp
next
  case (Suc n)
  let ?acc = "fold (\<lambda>i inds. inds @ [g i inds]) [0 ..< n] []"
  have step: "fold (\<lambda>i inds. inds @ [g i inds]) [0 ..< Suc n] [] = ?acc @ [g n ?acc]"
    by simp
  have len: "length ?acc = n" using Suc.IH by simp
  show ?case
  proof (intro conjI allI impI)
    show "length (fold (\<lambda>i inds. inds @ [g i inds]) [0 ..< Suc n] []) = Suc n"
      using len by (simp del: upt_Suc add: step)
  next
    fix i assume "i < Suc n"
    show "\<exists>prev. fold (\<lambda>i inds. inds @ [g i inds]) [0 ..< Suc n] [] ! i = g i prev"
    proof (cases "i < n")
      case True
      then obtain prev where "?acc ! i = g i prev" using Suc.IH by blast
      then show ?thesis using True len by (auto simp del: upt_Suc simp add: step nth_append)
    next
      case False
      with \<open>i < Suc n\<close> have "i = n" by simp
      then show ?thesis using len by (auto simp del: upt_Suc simp add: step nth_append)
    qed
  qed
qed

lemma snapshot_fields:
  "i_timestamp (snapshot candles i prev) = c_timestamp (candles ! i)"
  "price (snapshot candles i prev) = Some (c_close (candles ! i))"
  "(ema9 (snapshot candles i prev) \<noteq> None) = (9 \<le> i)"
  "(ema20 (snapshot candles i prev) \<noteq> None) = (20 \<le> i)"
  "(ema50 (snapshot candles i prev) \<noteq> None) = (50 \<le> i)"
  "(sma20 (snapshot candles i prev) \<noteq> None) = (20 \<le> i)"
  "(sma50 (snapshot candles i prev) \<noteq> None) = (50 \<le> i)"
  "(sma200 (snapshot candles i prev) \<noteq> None) = (200 \<le> i)"
  "(rsi (snapshot candles i prev) \<noteq> None) = (14 \<le> i)"
  "(macd (snapshot candles i prev) \<noteq> None) = (26 \<le> i)"
  "(macdSignal (snapshot candles i prev) \<noteq> None) = (26 \<le> i)"
  "(macdHistogram (snapshot candles i prev) \<noteq> None) = (26 \<le> i)"
  "(bollingerUpper (snapshot candles i prev) \<noteq> None) = (20 \<le> i)"
  "(bollingerMiddle (snapshot candles i prev) \<noteq> None) = (20 \<le> i)"
  "(bollingerLower (snapshot candles i prev) \<noteq> None) = (20 \<le> i)"
  "(bollingerBand (snapshot candles i prev) \<noteq> None) = (20 \<le> i)"
  "(stochK (snapshot candles i prev) \<noteq> None) = (14 \<le> i)"
  "(stochD (snapshot candles i prev) \<noteq> None) = (14 \<le> i)"
  "(adx (snapshot candles i prev) \<noteq> None) = (14 \<le> i)"
  "(atr (snapshot candles i prev) \<noteq> None) = (14 \<le> i)"
  "(volumeRatio (snapshot candles i prev) \<noteq> None) = (20 \<le> i)"
  "(volumeMA (snapshot candles i prev) \<noteq> None) = (20 \<le> i)"
  "(obv (snapshot candles i prev) \<noteq> None) = (0 < i)"
  by (simp_all add: snapshot_def Let_def)

lemma calculateAll_length:
  "50 \<le> length candles \<Longrightarrow> length (calculateAll candles) = length candles"
  using fold_snapshot_upt [of "snapshot candles" "length candles"]
  by (simp add: calculateAll_def)

lemma calculateAll_nth:
  "50 \<le> length candles \<Longrightarrow> i < length candles \<Longrightarrow>
     \<exists>prev. calculateAll candles ! i = snapshot candles i prev"
  using fold_snapshot_upt [of "snapshot candles" "length candles"]
  by (simp add: calculateAll_def)

lemma calculateAll_nth_prop:
  "50 \<le> length candles \<Longrightarrow> i < length candles \<Longrightarrow> (\<And>prev. P (snapshot candles i prev))
     \<Longrightarrow> P (calculateAll candles ! i)"
  using calculateAll_nth [of candles i] by auto

text \<open>
  C3, as stated: for every candle sequence the result has one snapshot per candle. It
  fails below 50 candles, where the function returns the empty sequence.
\<close>

theorem calculateAll_short_counterexample:
  "length (replicate 49 ex_candle) = 49 \<and> length (calculateAll (replicate 49 ex_candle)) = 0"
  by (simp add: calculateAll_def)

text \<open>
  C3, amended: on fewer than 50 candles \<open>calculateAll\<close> returns the empty sequence; on
  50 candles or more it returns one snapshot per candle, in input order: snapshot \<open>i\<close>
  carries the timestamp and the close of candle \<open>i\<close>, and each indicator field is
  present exactly from the index where the code starts to compute it (9 for ema9; 14 for
  rsi, stochastic, adx and atr; 20 for ema20, sma20, the Bollinger fields and the volume
  fields; 26 for the MACD fields; 50 for ema50 and sma50; 200 for sma200; 1 for obv).
\<close>

theorem calculateAll_aligned:
  "(length candles < 50 \<longrightarrow> calculateAll candles = [])
   \<and> (50 \<le> length candles \<longrightarrow>
        length (calculateAll candles) = length candles
        \<and> (\<forall>i < length candles.
              i_timestamp (calculateAll candles ! i) = c_timestamp (candles ! i)
              \<and> price (calculateAll candles ! i) = Some (c_close (candles ! i))
              \<and> (ema9 (calculateAll candles ! i) \<noteq> None) = (9 \<le> i)
              \<and> (ema20 (calculateAll candles ! i) \<noteq> None) = (20 \<le> i)
              \<and> (ema50 (calculateAll candles ! i) \<noteq> None) = (50 \<le> i)
              \<and> (sma20 (calculateAll candles ! i) \<noteq> None) = (20 \<le> i)
              \<and> (sma50 (calculateAll candles ! i) \<noteq> None) = (50 \<le> i)
              \<and> (sma200 (calculateAll candles ! i) \<noteq> None) = (200 \<le> i)
              \<and> (rsi (calculateAll candles ! i) \<noteq> None) = (14 \<le> i)
              \<and> (macd (calculateAll candles ! i) \<noteq> None) = (26 \<le> i)
              \<and> (macdSignal (calculateAll candles ! i) \<noteq> None) = (26 \<le> i)
              \<and> (macdHistogram (calculateAll candles ! i) \<noteq> None) = (26 \<le> i)
              \<and> (bollingerUpper (calculateAll candles ! i) \<noteq> None) = (20 \<le> i)
              \<and> (bollingerMiddle (calculateAll candles ! i) \<noteq> None) = (20 \<le> i)
              \<and> (bollingerLower (calculateAll candles ! i) \<noteq> None) = (20 \<le> i)
              \<and> (bollingerBand (calculateAll candles ! i) \<noteq> None) = (20 \<le> i)
              \<and> (stochK (calculateAll candles ! i) \<noteq> None) = (14 \<le> i)
              \<and> (stochD (calculateAll candles ! i) \<noteq> None) = (14 \<le> i)
              \<and> (adx (calculateAll candles ! i) \<noteq> None) = (14 \<le> i)
              \<and> (atr (calculateAll candles ! i) \<noteq> None) = (14 \<le> i)
              \<and> (volumeRatio (calculateAll candles ! i) \<noteq> None) = (20 \<le> i)
              \<and> (volumeMA (calculateAll candles ! i) \<noteq> None) = (20 \<le> i)
              \<and> (obv (calculateAll candles ! i) \<noteq> None) = (0 < i)))"
  apply (intro conjI impI allI)
  apply (simp add: calculateAll_def)
  apply (simp add: calculateAll_length)
  apply (erule (1) calculateAll_nth_prop, simp only: snapshot_fields)+
  done

theorem calculateAll_aligned_witness:
  "length (calculateAll (replicate 50 ex_candle)) = 50
   \<and> i_timestamp (calculateAll (replicate 50 ex_candle) ! 49) = 1700000000000
   \<and> price (calculateAll (replicate 50 ex_candle) ! 49) = Some (Fin 185)
   \<and> rsi (calculateAll (replicate 50 ex_candle) ! 49) \<noteq> None
   \<and> ema50 (calculateAll (replicate 50 ex_candle) ! 49) = None
   \<and> calculateAll (replicate 49 ex_candle) = []"
proof -
  have a: "50 \<le> length (replicate 50 ex_candle)"
    and i: "(49 :: nat) < length (replicate 50 ex_candle)"
    and b: "length (replicate 49 ex_candle) < 50"
    by simp_all
  note short = calculateAll_aligned [of "replicate 49 ex_candle", THEN conjunct1, THEN mp, OF b]
  note long = calculateAll_aligned [of "replicate 50 ex_candle", THEN conjunct2, THEN mp, OF a]
  note len = long [THEN conjunct1]
  note at49 = long [THEN conjunct2, THEN spec, of 49, THEN mp, OF i]
  show ?thesis
    using short len at49 by (simp add: ex_candle_def)
qed

section \<open>Setup detector: filtering and ordering of the result\<close>

lemma set_js_insert: "set (js_insert cmp a bs) = insert a (set bs)"
  by (induction bs) auto

lemma set_js_sort: "set (js_sort cmp xs) = set xs"
  unfolding js_sort_def by (induction xs) (auto simp: set_js_insert)

lemma js_le_trans: "js_le a b \<Longrightarrow> js_le b c \<Longrightarrow> js_le a c"
  by (cases a; cases b; cases c) auto

lemma byConfidence_not_pos:
  "confidence a \<noteq> NaN \<Longrightarrow> confidence b \<noteq> NaN \<Longrightarrow> \<not> js_lt (Fin 0) (byConfidence a b)
     \<Longrightarrow> js_le (confidence b) (confidence a)"
  unfolding byConfidence_def by (cases "confidence a"; cases "confidence b") auto

lemma byConfidence_pos:
  "js_lt (Fin 0) (byConfidence a b) \<Longrightarrow> js_le (confidence a) (confidence b)"
  unfolding byConfidence_def by (cases "confidence a"; cases "confidence b") auto

lemma sorted_js_insert:
  assumes "confidence a \<noteq> NaN" "\<forall>b \<in> set bs. confidence b \<noteq> NaN"
    "sorted_wrt (\<lambda>x y. js_le (confidence y) (confidence x)) bs"
  shows "sorted_wrt (\<lambda>x y. js_le (confidence y) (confidence x)) (js_insert byConfidence a bs)"
  using assms
proof (induction bs)
  case Nil
  then show ?case by simp
next
  case (Cons b bs)
  show ?case
  proof (cases "js_lt (Fin 0) (byConfidence a b)")
    case True
    then have ab: "js_le (confidence a) (confidence b)" by (rule byConfidence_pos)
    have "sorted_wrt (\<lambda>x y. js_le (confidence y) (confidence x)) (js_insert byConfidence a bs)"
      using Cons by simp
    moreover have "\<forall>y \<in> set (js_insert byConfidence a bs). js_le (confidence y) (confidence b)"
      using Cons.prems(3) ab by (auto simp: set_js_insert)
    ultimately show ?thesis using True by simp
  next
    case False
    have ba: "js_le (confidence b) (confidence a)"
      using byConfidence_not_pos [OF Cons.prems(1) _ False] Cons.prems(2) by simp
    have "\<forall>y \<in> set bs. js_le (confidence y) (confidence a)"
      using Cons.prems(3) ba by (auto intro: js_le_trans)
    then show ?thesis using False ba Cons.prems(3) by simp
  qed
qed

lemma sorted_js_sort:
  "\<forall>x \<in> set xs. confidence x \<noteq> NaN \<Longrightarrow>
     sorted_wrt (\<lambda>x y. js_le (confidence y) (confidence x)) (js_sort byConfidence xs)"
proof (induction xs)
  case Nil
  then show ?case by (simp add: js_sort_def)
next
  case (Cons x xs)
  have step: "js_sort byConfidence (x # xs) = js_insert byConfidence x (js_sort byConfidence xs)"
    by (simp add: js_sort_def)
  show ?case unfolding step
    using Cons by (intro sorted_js_insert) (auto simp: set_js_sort)
qed

lemma js_le_not_NaN: "js_le a b \<Longrightarrow> b \<noteq> NaN"
  by (cases a; cases b) auto

lemma last_close_Inr: "candles \<noteq> [] \<Longrightarrow> last_close candles = Inr (c_close (last candles))"
  by (simp add: last_close_def)

lemma Let_returns: "(\<And>x. \<exists>r. f x = Inr r) \<Longrightarrow> \<exists>r. Let a f = Inr r"
  by simp

lemma if_returns:
  "(c \<Longrightarrow> \<exists>r. a = Inr r) \<Longrightarrow> (\<not> c \<Longrightarrow> \<exists>r. b = Inr r) \<Longrightarrow> \<exists>r. (if c then a else b) = Inr r"
  by simp

lemma detectTrendFollowing_returns:
  assumes "candles \<noteq> []"
  shows "\<exists>r. detectTrendFollowing d candles ind pred reg now = Inr r"
  unfolding detectTrendFollowing_def last_close_Inr [OF assms] sum.case
  by (intro Let_returns if_returns) simp_all

lemma detectBreakout_returns:
  assumes "candles \<noteq> []"
  shows "\<exists>r. detectBreakout d candles ind patterns now = Inr r"
  unfolding detectBreakout_def last_close_Inr [OF assms] sum.case
  by (intro Let_returns if_returns) simp_all

lemma detectDivergenceTrade_returns:
  assumes "candles \<noteq> []"
  shows "\<exists>r. detectDivergenceTrade candles indicators now = Inr r"
  unfolding detectDivergenceTrade_def last_close_Inr [OF assms] sum.case
  by (intro Let_returns if_returns) (simp_all split: option.splits)

lemma analyzeMarket_returns:
  assumes "candles \<noteq> []" "indicators \<noteq> []"
  shows "\<exists>setups. analyzeMarket d candles indicators patterns pred reg now =
           Inr (js_sort byConfidence (filter (\<lambda>s. minConfidence d \<le> confidence s) setups),
                d\<lparr>activeSetups :=
                   js_sort byConfidence (filter (\<lambda>s. minConfidence d \<le> confidence s) setups)\<rparr>)"
proof -
  obtain t where t: "detectTrendFollowing d candles (last indicators) pred reg now = Inr t"
    using detectTrendFollowing_returns [OF assms(1)] by blast
  obtain b where b: "detectBreakout d candles (last indicators) patterns now = Inr b"
    using detectBreakout_returns [OF assms(1)] by blast
  obtain v where v: "detectDivergenceTrade candles indicators now = Inr v"
    using detectDivergenceTrade_returns [OF assms(1)] by blast
  let ?setups = "opt_list t
      @ opt_list (detectMeanReversion d (c_close (last candles)) (last indicators) patterns now)
      @ opt_list b @ opt_list (detectPatternTrade d patterns (last indicators) pred now)
      @ opt_list v"
  have "analyzeMarket d candles indicators patterns pred reg now =
           Inr (js_sort byConfidence (filter (\<lambda>s. minConfidence d \<le> confidence s) ?setups),
                d\<lparr>activeSetups :=
                   js_sort byConfidence (filter (\<lambda>s. minConfidence d \<le> confidence s) ?setups)\<rparr>)"
    using assms by (simp add: analyzeMarket_def last_close_Inr t b v Let_def)
  then show ?thesis by blast
qed

lemma analyzeMarket_throws:
  "candles = [] \<or> indicators = [] \<Longrightarrow>
     analyzeMarket d candles indicators patterns pred reg now = Inl TypeError"
  by (cases "candles = []") (simp_all add: analyzeMarket_def last_close_def)

lemma analyzeMarket_result:
  assumes "analyzeMarket d candles indicators patterns pred reg now = Inr (setups, d')"
  shows "(\<forall>s \<in> set setups. minConfidence d \<le> confidence s)
         \<and> sorted_wrt (\<lambda>a b. confidence b \<le> confidence a) setups
         \<and> activeSetups d' = setups"
proof -
  have ne: "candles \<noteq> []" "indicators \<noteq> []"
    using assms analyzeMarket_throws [of candles indicators d patterns pred reg now] by auto
  from analyzeMarket_returns [OF ne] obtain raw where
    r: "analyzeMarket d candles indicators patterns pred reg now =
           Inr (js_sort byConfidence (filter (\<lambda>s. minConfidence d \<le> confidence s) raw),
                d\<lparr>activeSetups :=
                   js_sort byConfidence (filter (\<lambda>s. minConfidence d \<le> confidence s) raw)\<rparr>)"
    by blast
  define valid where "valid = filter (\<lambda>s. minConfidence d \<le> confidence s) raw"
  define result where "result = js_sort byConfidence valid"
  have r': "analyzeMarket d candles indicators patterns pred reg now =
      Inr (result, d\<lparr>activeSetups := result\<rparr>)"
    unfolding result_def valid_def by (rule r)
  have eq: "setups = result" "d' = d\<lparr>activeSetups := result\<rparr>"
    using assms unfolding r' by auto
  have mem: "\<forall>s \<in> set result. minConfidence d \<le> confidence s"
    unfolding result_def set_js_sort valid_def by simp
  have "\<forall>s \<in> set valid. confidence s \<noteq> NaN"
    unfolding valid_def by (auto dest: js_le_not_NaN)
  then have "sorted_wrt (\<lambda>x y. js_le (confidence y) (confidence x)) result"
    unfolding result_def by (rule sorted_js_sort)
  then have srt: "sorted_wrt (\<lambda>a b. confidence b \<le> confidence a) result"
    by simp
  have act: "activeSetups (d\<lparr>activeSetups := result\<rparr>) = result" by simp
  show ?thesis
    unfolding eq using mem srt act by blast
qed

text \<open>
  C2. For every detector threshold, candle sequence, indicator sequence, pattern list,
  optional prediction and regime: whenever \<open>analyzeMarket\<close> returns, every setup of the
  returned sequence has a confidence at or above the configured \<open>minConfidence\<close>, the
  sequence is sorted by confidence in descending order, and it is stored as the active
  setups; and it does return as soon as there is a candle and an indicator snapshot
  (without one of them it throws, lemma \<open>analyzeMarket_throws\<close>).
\<close>

theorem analyzeMarket_filtered_sorted:
  "(\<forall>setups d'. analyzeMarket d candles indicators patterns pred reg now = Inr (setups, d') \<longrightarrow>
       (\<forall>s \<in> set setups. minConfidence d \<le> confidence s)
       \<and> sorted_wrt (\<lambda>a b. confidence b \<le> confidence a) setups
       \<and> activeSetups d' = setups)
   \<and> (candles \<noteq> [] \<and> indicators \<noteq> [] \<longrightarrow>
       (\<exists>setups d'. analyzeMarket d candles indicators patterns pred reg now = Inr (setups, d')))"
  using analyzeMarket_result [of d candles indicators patterns pred reg now]
    analyzeMarket_returns [of candles indicators d patterns pred reg now]
  by blast

theorem analyzeMarket_filtered_sorted_witness:
  "analyzeMarket new_detector [ex_candle] [oversold_snapshot] [double_bottom] None ranging
       1700000060000
     = Inr ([pattern_setup_1, reversion_setup_1],
            new_detector\<lparr>activeSetups := [pattern_setup_1, reversion_setup_1]\<rparr>)
   \<and> Fin 0.60 \<le> confidence reversion_setup_1
   \<and> confidence reversion_setup_1 \<le> confidence pattern_setup_1"
proof -
  have e: "analyzeMarket new_detector [ex_candle] [oversold_snapshot] [double_bottom] None ranging
       1700000060000
     = Inr ([pattern_setup_1, reversion_setup_1],
            new_detector\<lparr>activeSetups := [pattern_setup_1, reversion_setup_1]\<rparr>)"
    by code_simp
  note T = analyzeMarket_filtered_sorted [of new_detector "[ex_candle]" "[oversold_snapshot]"
      "[double_bottom]" None ranging 1700000060000]
  have ne: "[ex_candle] \<noteq> [] \<and> [oversold_snapshot] \<noteq> []" by simp
  from T [THEN conjunct2, THEN mp, OF ne]
  have "\<exists>setups d'. analyzeMarket new_detector [ex_candle] [oversold_snapshot] [double_bottom]
       None ranging 1700000060000 = Inr (setups, d')" .
  from T [THEN conjunct1, THEN spec, THEN spec, THEN mp, OF e]
  have "(\<forall>s \<in> set [pattern_setup_1, reversion_setup_1].
            minConfidence new_detector \<le> confidence s)
        \<and> sorted_wrt (\<lambda>a b. confidence b \<le> confidence a) [pattern_setup_1, reversion_setup_1]"
    by blast
  then show ?thesis using e by (simp add: new_detector_def)
qed

section \<open>Setup detector: what each strategy emits\<close>

text \<open>
  The strategies are chains of \<open>let\<close>s and tests. The rules below walk through such a
  chain without unfolding it, keeping the defining equation of each bound name.
\<close>

lemma Let_P: "(\<And>x. x = a \<Longrightarrow> P (g x)) \<Longrightarrow> P (Let a g)"
  by simp

lemma if_P: "(c \<Longrightarrow> P a) \<Longrightarrow> (\<not> c \<Longrightarrow> P b) \<Longrightarrow> P (if c then a else b)"
  by simp

lemma sum_P:
  "(\<And>e. x = Inl e \<Longrightarrow> P (f e)) \<Longrightarrow> (\<And>v. x = Inr v \<Longrightarrow> P (g v))
     \<Longrightarrow> P (case x of Inl e \<Rightarrow> f e | Inr v \<Rightarrow> g v)"
  by (cases x) simp_all

lemma option_P:
  "(x = None \<Longrightarrow> P a) \<Longrightarrow> (\<And>v. x = Some v \<Longrightarrow> P (g v))
     \<Longrightarrow> P (case x of None \<Rightarrow> a | Some v \<Rightarrow> g v)"
  by (cases x) simp_all

lemma Math_min_cap: "conf = Math_min (Fin c) y \<Longrightarrow> mc \<le> conf \<Longrightarrow> conf \<le> Fin c"
  by (cases y; cases mc) (auto simp: Math_min_def split: if_splits)

lemma Math_min_cap_or: "conf = Math_min (Fin c) y \<Longrightarrow> conf \<le> Fin c \<or> conf = NaN"
  by (cases y) (auto simp: Math_min_def split: if_splits)

lemma leaf_None: "\<forall>s. None = Some s \<longrightarrow> Q s"
  by simp

lemma leaf_Some: "Q r \<Longrightarrow> \<forall>s. Some r = Some s \<longrightarrow> Q s"
  by simp

lemma detectMeanReversion_capped:
  "\<forall>s. detectMeanReversion d p ind pats now = Some s \<longrightarrow> confidence s \<le> Fin 0.95"
  unfolding detectMeanReversion_def
  apply (intro Let_P [where P = "\<lambda>r. \<forall>s. r = Some s \<longrightarrow> confidence s \<le> Fin 0.95"]
      if_P [where P = "\<lambda>r. \<forall>s. r = Some s \<longrightarrow> confidence s \<le> Fin 0.95"]
      leaf_None leaf_Some [where Q = "\<lambda>s. confidence s \<le> Fin 0.95"])
  apply (simp (no_asm) only: trade_setup.select_convs)
  apply (erule (1) Math_min_cap)
  done

lemma detectPatternTrade_capped:
  "\<forall>s. detectPatternTrade d pats ind pred now = Some s \<longrightarrow>
     confidence s \<le> Fin 0.95 \<or> confidence s = NaN"
  unfolding detectPatternTrade_def
  apply (intro Let_P [where P = "\<lambda>r. \<forall>s. r = Some s \<longrightarrow> confidence s \<le> Fin 0.95 \<or> confidence s = NaN"]
      if_P [where P = "\<lambda>r. \<forall>s. r = Some s \<longrightarrow> confidence s \<le> Fin 0.95 \<or> confidence s = NaN"]
      leaf_None leaf_Some [where Q = "\<lambda>s. confidence s \<le> Fin 0.95 \<or> confidence s = NaN"])
  apply (simp (no_asm) only: trade_setup.select_convs)
  apply (erule Math_min_cap_or)
  done

lemma leaf_Inl: "\<forall>s. Inl e = Inr (Some s) \<longrightarrow> Q s"
  by simp

lemma leaf_Inr_None: "\<forall>s. Inr None = Inr (Some s) \<longrightarrow> Q s"
  by simp

lemma leaf_Inr_Some: "Q r \<Longrightarrow> \<forall>s. Inr (Some r) = Inr (Some s) \<longrightarrow> Q s"
  by simp

lemma detectTrendFollowing_type:
  "\<forall>s. detectTrendFollowing d candles ind pred reg now = Inr (Some s) \<longrightarrow>
     s_type s = ''TREND_FOLLOWING''"
  unfolding detectTrendFollowing_def
  apply (intro Let_P [where P = "\<lambda>r. \<forall>s. r = Inr (Some s) \<longrightarrow> s_type s = ''TREND_FOLLOWING''"]
      if_P [where P = "\<lambda>r. \<forall>s. r = Inr (Some s) \<longrightarrow> s_type s = ''TREND_FOLLOWING''"]
      sum_P [where P = "\<lambda>r. \<forall>s. r = Inr (Some s) \<longrightarrow> s_type s = ''TREND_FOLLOWING''"]
      leaf_Inl leaf_Inr_None leaf_Inr_Some [where Q = "\<lambda>s. s_type s = ''TREND_FOLLOWING''"])
  apply (simp (no_asm) only: trade_setup.select_convs)
  done

lemma detectBreakout_capped:
  "\<forall>s. detectBreakout d candles ind pats now = Inr (Some s) \<longrightarrow> confidence s \<le> Fin 0.95"
  unfolding detectBreakout_def
  apply (intro Let_P [where P = "\<lambda>r. \<forall>s. r = Inr (Some s) \<longrightarrow> confidence s \<le> Fin 0.95"]
      if_P [where P = "\<lambda>r. \<forall>s. r = Inr (Some s) \<longrightarrow> confidence s \<le> Fin 0.95"]
      sum_P [where P = "\<lambda>r. \<forall>s. r = Inr (Some s) \<longrightarrow> confidence s \<le> Fin 0.95"]
      leaf_Inl leaf_Inr_None leaf_Inr_Some [where Q = "\<lambda>s. confidence s \<le> Fin 0.95"])
  apply (simp (no_asm) only: trade_setup.select_convs)
  apply (erule (1) Math_min_cap)
  done

lemma detectDivergence_strength:
  "detectDivergence prices ind periods = Some dv \<Longrightarrow> strength dv = Fin 0.8"
  unfolding detectDivergence_def Let_def by (auto split: if_splits)

lemma detectDivergenceTrade_capped:
  "\<forall>s. detectDivergenceTrade candles indicators now = Inr (Some s) \<longrightarrow> confidence s = Fin 0.8"
  unfolding detectDivergenceTrade_def
  apply (intro Let_P [where P = "\<lambda>r. \<forall>s. r = Inr (Some s) \<longrightarrow> confidence s = Fin 0.8"]
      if_P [where P = "\<lambda>r. \<forall>s. r = Inr (Some s) \<longrightarrow> confidence s = Fin 0.8"]
      sum_P [where P = "\<lambda>r. \<forall>s. r = Inr (Some s) \<longrightarrow> confidence s = Fin 0.8"]
      option_P [where P = "\<lambda>r. \<forall>s. r = Inr (Some s) \<longrightarrow> confidence s = Fin 0.8"]
      leaf_Inl leaf_Inr_None leaf_Inr_Some [where Q = "\<lambda>s. confidence s = Fin 0.8"])
  apply (simp (no_asm) only: trade_setup.select_convs)
  apply (erule detectDivergence_strength)
  done

lemma last_close_Inr_iff:
  "last_close candles = Inr v \<Longrightarrow> v = c_close (last candles)"
  by (simp add: last_close_def split: if_splits)

lemma trend_leaf:
  assumes "a' = js_or (to_num a) (v * Fin 0.02)" "last_close candles = Inr v"
    "c_close (last candles) = Fin c" "0 < c"
    "a = None \<or> (\<exists>x. a = Some (Fin x) \<and> 0 \<le> x)"
  shows "sides_ok \<lparr>s_type = ty,
      direction = dir, confidence = cf, entry = v,
      stopLoss = (if dir = ''LONG'' then v - (a' * Fin 2) else v + (a' * Fin 2)),
      takeProfit = (if dir = ''LONG'' then v + (a' * Fin 4) else v - (a' * Fin 4)),
      riskReward = rr, signals = sg, s_pattern = pt, s_timestamp = ts\<rparr>"
proof -
  have v: "v = Fin c" using last_close_Inr_iff [OF assms(2)] assms(3) by simp
  have "a' = Fin (c / 50) \<or> (\<exists>x. a' = Fin x \<and> 0 < x)"
    using assms(1,4,5) unfolding v by (auto simp: js_or_def to_num_def)
  moreover have "0 < c / 50" using assms(4) by simp
  ultimately obtain q where q: "a' = Fin q" "0 < q" by blast
  show ?thesis unfolding v q(1) sides_ok_def using q(2) by simp
qed

lemma divergence_leaf:
  assumes "last_close candles = Inr v" "c_close (last candles) = Fin c" "0 < c"
  shows "sides_ok \<lparr>s_type = ty,
      direction = (if b then ''LONG'' else ''SHORT''), confidence = cf, entry = v,
      stopLoss = (if b then v * Fin 0.98 else v * Fin 1.02),
      takeProfit = (if b then v * Fin 1.04 else v * Fin 0.96),
      riskReward = rr, signals = sg, s_pattern = pt, s_timestamp = ts\<rparr>"
proof -
  have v: "v = Fin c" using last_close_Inr_iff [OF assms(1)] assms(2) by simp
  show ?thesis unfolding v sides_ok_def using assms(3) by simp
qed

lemma reversion_leaf:
  assumes "sd = Fin c * Fin 0.015" "0 < c"
  shows "stop_ok \<lparr>s_type = ty,
      direction = dir, confidence = cf, entry = Fin c,
      stopLoss = (if dir = ''LONG'' then Fin c - sd else Fin c + sd),
      takeProfit = tp,
      riskReward = rr, signals = sg, s_pattern = pt, s_timestamp = ts\<rparr>"
  unfolding assms(1) stop_ok_def using assms(2) by simp

lemma detectTrendFollowing_sides:
  assumes "c_close (last candles) = Fin c" "0 < c"
    "atr ind = None \<or> (\<exists>x. atr ind = Some (Fin x) \<and> 0 \<le> x)"
  shows "\<forall>s. detectTrendFollowing d candles ind pred reg now = Inr (Some s) \<longrightarrow> sides_ok s"
  using assms unfolding detectTrendFollowing_def
  apply (intro Let_P [where P = "\<lambda>r. \<forall>s. r = Inr (Some s) \<longrightarrow> sides_ok s"]
      if_P [where P = "\<lambda>r. \<forall>s. r = Inr (Some s) \<longrightarrow> sides_ok s"]
      sum_P [where P = "\<lambda>r. \<forall>s. r = Inr (Some s) \<longrightarrow> sides_ok s"]
      leaf_Inl leaf_Inr_None leaf_Inr_Some [where Q = sides_ok])
  apply (rule trend_leaf; assumption)
  done

lemma detectDivergenceTrade_sides:
  assumes "c_close (last candles) = Fin c" "0 < c"
  shows "\<forall>s. detectDivergenceTrade candles indicators now = Inr (Some s) \<longrightarrow> sides_ok s"
  using assms unfolding detectDivergenceTrade_def
  apply (intro Let_P [where P = "\<lambda>r. \<forall>s. r = Inr (Some s) \<longrightarrow> sides_ok s"]
      if_P [where P = "\<lambda>r. \<forall>s. r = Inr (Some s) \<longrightarrow> sides_ok s"]
      sum_P [where P = "\<lambda>r. \<forall>s. r = Inr (Some s) \<longrightarrow> sides_ok s"]
      option_P [where P = "\<lambda>r. \<forall>s. r = Inr (Some s) \<longrightarrow> sides_ok s"]
      leaf_Inl leaf_Inr_None leaf_Inr_Some [where Q = sides_ok])
  apply (rule divergence_leaf; assumption)
  done

lemma detectMeanReversion_stop:
  assumes "0 < c"
  shows "\<forall>s. detectMeanReversion d (Fin c) ind pats now = Some s \<longrightarrow> stop_ok s"
  using assms unfolding detectMeanReversion_def
  apply (intro Let_P [where P = "\<lambda>r. \<forall>s. r = Some s \<longrightarrow> stop_ok s"]
      if_P [where P = "\<lambda>r. \<forall>s. r = Some s \<longrightarrow> stop_ok s"]
      leaf_None leaf_Some [where Q = stop_ok])
  apply (rule reversion_leaf; assumption)
  done

lemma detectMeanReversion_type:
  "\<forall>s. detectMeanReversion d p ind pats now = Some s \<longrightarrow> s_type s = ''MEAN_REVERSION''"
  unfolding detectMeanReversion_def
  apply (intro Let_P [where P = "\<lambda>r. \<forall>s. r = Some s \<longrightarrow> s_type s = ''MEAN_REVERSION''"]
      if_P [where P = "\<lambda>r. \<forall>s. r = Some s \<longrightarrow> s_type s = ''MEAN_REVERSION''"]
      leaf_None leaf_Some [where Q = "\<lambda>s. s_type s = ''MEAN_REVERSION''"])
  apply (simp (no_asm) only: trade_setup.select_convs)
  done

lemma detectPatternTrade_type:
  "\<forall>s. detectPatternTrade d pats ind pred now = Some s \<longrightarrow> s_type s = ''PATTERN_TRADE''"
  unfolding detectPatternTrade_def
  apply (intro Let_P [where P = "\<lambda>r. \<forall>s. r = Some s \<longrightarrow> s_type s = ''PATTERN_TRADE''"]
      if_P [where P = "\<lambda>r. \<forall>s. r = Some s \<longrightarrow> s_type s = ''PATTERN_TRADE''"]
      leaf_None leaf_Some [where Q = "\<lambda>s. s_type s = ''PATTERN_TRADE''"])
  apply (simp (no_asm) only: trade_setup.select_convs)
  done

lemma detectBreakout_type:
  "\<forall>s. detectBreakout d candles ind pats now = Inr (Some s) \<longrightarrow> s_type s = ''BREAKOUT''"
  unfolding detectBreakout_def
  apply (intro Let_P [where P = "\<lambda>r. \<forall>s. r = Inr (Some s) \<longrightarrow> s_type s = ''BREAKOUT''"]
      if_P [where P = "\<lambda>r. \<forall>s. r = Inr (Some s) \<longrightarrow> s_type s = ''BREAKOUT''"]
      sum_P [where P = "\<lambda>r. \<forall>s. r = Inr (Some s) \<longrightarrow> s_type s = ''BREAKOUT''"]
      leaf_Inl leaf_Inr_None leaf_Inr_Some [where Q = "\<lambda>s. s_type s = ''BREAKOUT''"])
  apply (simp (no_asm) only: trade_setup.select_convs)
  done

lemma detectDivergenceTrade_type:
  "\<forall>s. detectDivergenceTrade candles indicators now = Inr (Some s) \<longrightarrow> s_type s = ''DIVERGENCE''"
  unfolding detectDivergenceTrade_def
  apply (intro Let_P [where P = "\<lambda>r. \<forall>s. r = Inr (Some s) \<longrightarrow> s_type s = ''DIVERGENCE''"]
      if_P [where P = "\<lambda>r. \<forall>s. r = Inr (Some s) \<longrightarrow> s_type s = ''DIVERGENCE''"]
      sum_P [where P = "\<lambda>r. \<forall>s. r = Inr (Some s) \<longrightarrow> s_type s = ''DIVERGENCE''"]
      option_P [where P = "\<lambda>r. \<forall>s. r = Inr (Some s) \<longrightarrow> s_type s = ''DIVERGENCE''"]
      leaf_Inl leaf_Inr_None leaf_Inr_Some [where Q = "\<lambda>s. s_type s = ''DIVERGENCE''"])
  apply (simp (no_asm) only: trade_setup.select_convs)
  done

lemma analyzeMarket_unfold:
  assumes "analyzeMarket d candles indicators patterns pred reg now = Inr (setups, d')"
  shows "\<exists>t b v. detectTrendFollowing d candles (last indicators) pred reg now = Inr t
           \<and> detectBreakout d candles (last indicators) patterns now = Inr b
           \<and> detectDivergenceTrade candles indicators now = Inr v
           \<and> candles \<noteq> [] \<and> indicators \<noteq> []
           \<and> setups = js_sort byConfidence (filter (\<lambda>s. minConfidence d \<le> confidence s)
               (opt_list t
                @ opt_list (detectMeanReversion d (c_close (last candles)) (last indicators)
                              patterns now)
                @ opt_list b
                @ opt_list (detectPatternTrade d patterns (last indicators) pred now)
                @ opt_list v))"
proof -
  have ne: "candles \<noteq> []" "indicators \<noteq> []"
    using assms analyzeMarket_throws [of candles indicators d patterns pred reg now] by auto
  obtain t where t: "detectTrendFollowing d candles (last indicators) pred reg now = Inr t"
    using detectTrendFollowing_returns [OF ne(1)] by blast
  obtain b where b: "detectBreakout d candles (last indicators) patterns now = Inr b"
    using detectBreakout_returns [OF ne(1)] by blast
  obtain v where v: "detectDivergenceTrade candles indicators now = Inr v"
    using detectDivergenceTrade_returns [OF ne(1)] by blast
  let ?raw = "opt_list t
      @ opt_list (detectMeanReversion d (c_close (last candles)) (last indicators) patterns now)
      @ opt_list b @ opt_list (detectPatternTrade d patterns (last indicators) pred now)
      @ opt_list v"
  have "analyzeMarket d candles indicators patterns pred reg now =
           Inr (js_sort byConfidence (filter (\<lambda>s. minConfidence d \<le> confidence s) ?raw),
                d\<lparr>activeSetups :=
                   js_sort byConfidence (filter (\<lambda>s. minConfidence d \<le> confidence s) ?raw)\<rparr>)"
    using ne by (simp add: analyzeMarket_def last_close_Inr t b v Let_def)
  with assms have "setups = js_sort byConfidence (filter (\<lambda>s. minConfidence d \<le> confidence s) ?raw)"
    by simp
  with t b v ne show ?thesis by blast
qed

lemma opt_list_member: "s \<in> set (opt_list x) \<Longrightarrow> x = Some s"
  by (cases x) (simp_all add: opt_list_def)

lemma other_strategies_capped:
  assumes "analyzeMarket d candles indicators patterns pred reg now = Inr (setups, d')"
    and "s \<in> set setups" and "s_type s \<noteq> ''TREND_FOLLOWING''"
  shows "confidence s \<le> Fin 0.95"
proof -
  from analyzeMarket_unfold [OF assms(1)] obtain t b v where
    t: "detectTrendFollowing d candles (last indicators) pred reg now = Inr t"
    and b: "detectBreakout d candles (last indicators) patterns now = Inr b"
    and v: "detectDivergenceTrade candles indicators now = Inr v"
    and eq: "setups = js_sort byConfidence (filter (\<lambda>s. minConfidence d \<le> confidence s)
               (opt_list t
                @ opt_list (detectMeanReversion d (c_close (last candles)) (last indicators)
                              patterns now)
                @ opt_list b
                @ opt_list (detectPatternTrade d patterns (last indicators) pred now)
                @ opt_list v))"
    by blast
  from assms(2) have valid: "minConfidence d \<le> confidence s"
    and mem: "s \<in> set (opt_list t)
       \<or> s \<in> set (opt_list (detectMeanReversion d (c_close (last candles)) (last indicators)
                              patterns now))
       \<or> s \<in> set (opt_list b)
       \<or> s \<in> set (opt_list (detectPatternTrade d patterns (last indicators) pred now))
       \<or> s \<in> set (opt_list v)"
    unfolding eq set_js_sort by auto
  have nn: "confidence s \<noteq> NaN" using valid by (auto dest: js_le_not_NaN)
  from mem show ?thesis
  proof (elim disjE)
    assume "s \<in> set (opt_list t)"
    then have "t = Some s" by (rule opt_list_member)
    with t detectTrendFollowing_type assms(3) show ?thesis by blast
  next
    assume "s \<in> set (opt_list (detectMeanReversion d (c_close (last candles)) (last indicators)
                              patterns now))"
    then have "detectMeanReversion d (c_close (last candles)) (last indicators) patterns now = Some s"
      by (rule opt_list_member)
    with detectMeanReversion_capped show ?thesis by blast
  next
    assume "s \<in> set (opt_list b)"
    then have "b = Some s" by (rule opt_list_member)
    with b detectBreakout_capped show ?thesis by blast
  next
    assume "s \<in> set (opt_list (detectPatternTrade d patterns (last indicators) pred now))"
    then have "detectPatternTrade d patterns (last indicators) pred now = Some s"
      by (rule opt_list_member)
    with detectPatternTrade_capped nn show ?thesis by blast
  next
    assume "s \<in> set (opt_list v)"
    then have "v = Some s" by (rule opt_list_member)
    with v detectDivergenceTrade_capped have "confidence s = Fin 0.8" by blast
    then show ?thesis by simp
  qed
qed

text \<open>
  Where the ordering of stop, entry and target does hold: on a positive last close and
  an average true range that is missing or a non-negative number, every returned
  trend-following or divergence setup has its stop and its target on the right sides of
  the entry, and every returned mean-reversion setup has its stop on the right side.
\<close>

lemma sides_of_emitted_setups:
  assumes run: "analyzeMarket d candles indicators patterns pred reg now = Inr (setups, d')"
    and price: "c_close (last candles) = Fin c" "0 < c"
    and atr: "atr (last indicators) = None \<or> (\<exists>x. atr (last indicators) = Some (Fin x) \<and> 0 \<le> x)"
    and s: "s \<in> set setups"
  shows "(s_type s = ''TREND_FOLLOWING'' \<or> s_type s = ''DIVERGENCE'' \<longrightarrow> sides_ok s)
         \<and> (s_type s = ''MEAN_REVERSION'' \<longrightarrow> stop_ok s)"
proof -
  from analyzeMarket_unfold [OF run] obtain t b v where
    t: "detectTrendFollowing d candles (last indicators) pred reg now = Inr t"
    and b: "detectBreakout d candles (last indicators) patterns now = Inr b"
    and v: "detectDivergenceTrade candles indicators now = Inr v"
    and eq: "setups = js_sort byConfidence (filter (\<lambda>s. minConfidence d \<le> confidence s)
               (opt_list t
                @ opt_list (detectMeanReversion d (c_close (last candles)) (last indicators)
                              patterns now)
                @ opt_list b
                @ opt_list (detectPatternTrade d patterns (last indicators) pred now)
                @ opt_list v))"
    by blast
  from s have mem: "s \<in> set (opt_list t)
       \<or> s \<in> set (opt_list (detectMeanReversion d (c_close (last candles)) (last indicators)
                              patterns now))
       \<or> s \<in> set (opt_list b)
       \<or> s \<in> set (opt_list (detectPatternTrade d patterns (last indicators) pred now))
       \<or> s \<in> set (opt_list v)"
    unfolding eq set_js_sort by auto
  from mem show ?thesis
  proof (elim disjE)
    assume "s \<in> set (opt_list t)"
    then have ts: "detectTrendFollowing d candles (last indicators) pred reg now = Inr (Some s)"
      using t by (simp add: opt_list_member)
    have "sides_ok s" using detectTrendFollowing_sides [OF price atr] ts by blast
    moreover have "s_type s = ''TREND_FOLLOWING''" using detectTrendFollowing_type ts by blast
    ultimately show ?thesis by simp
  next
    assume "s \<in> set (opt_list (detectMeanReversion d (c_close (last candles)) (last indicators)
                              patterns now))"
    then have ms: "detectMeanReversion d (Fin c) (last indicators) patterns now = Some s"
      unfolding price(1) by (rule opt_list_member)
    have "stop_ok s" using detectMeanReversion_stop [OF price(2)] ms by blast
    moreover have "s_type s = ''MEAN_REVERSION''" using detectMeanReversion_type ms by blast
    ultimately show ?thesis by simp
  next
    assume "s \<in> set (opt_list b)"
    then have "detectBreakout d candles (last indicators) patterns now = Inr (Some s)"
      using b by (simp add: opt_list_member)
    then have "s_type s = ''BREAKOUT''" using detectBreakout_type by blast
    then show ?thesis by simp
  next
    assume "s \<in> set (opt_list (detectPatternTrade d patterns (last indicators) pred now))"
    then have "detectPatternTrade d patterns (last indicators) pred now = Some s"
      by (rule opt_list_member)
    then have "s_type s = ''PATTERN_TRADE''" using detectPatternTrade_type by blast
    then show ?thesis by simp
  next
    assume "s \<in> set (opt_list v)"
    then have vs: "detectDivergenceTrade candles indicators now = Inr (Some s)"
      using v by (simp add: opt_list_member)
    have "sides_ok s" using detectDivergenceTrade_sides [OF price] vs by blast
    moreover have "s_type s = ''DIVERGENCE''" using detectDivergenceTrade_type vs by blast
    ultimately show ?thesis by simp
  qed
qed

section \<open>Setup detector: sides of stop and target, and the cap on confidence\<close>

text \<open>
  C1. The claim: every emitted LONG setup has stop below entry below target (mirrored
  for SHORT). The trend-following and divergence strategies keep that order, and the
  mean-reversion strategy keeps it for the stop (lemma \<open>sides_of_emitted_setups\<close>),
  but it takes the Bollinger middle as target without looking at the side of the entry
  it lies on. On an oversold snapshot (RSI 25) whose close 185 is above the Bollinger
  middle 174, with one bullish pattern of confidence 0.70, \<open>analyzeMarket\<close> returns a
  single LONG setup with entry 185, stop 182.225 and take profit 174: the target is below
  the entry. The theorem evaluates the code there.
\<close>

theorem mean_reversion_target_wrong_side:
  "analyzeMarket new_detector [ex_candle] [oversold_snapshot] [engulfing] None ranging
       1700000060000
     = Inr ([reversion_setup_2], new_detector\<lparr>activeSetups := [reversion_setup_2]\<rparr>)
   \<and> direction reversion_setup_2 = ''LONG''
   \<and> stopLoss reversion_setup_2 < entry reversion_setup_2
   \<and> takeProfit reversion_setup_2 < entry reversion_setup_2"
proof -
  have "analyzeMarket new_detector [ex_candle] [oversold_snapshot] [engulfing] None ranging
       1700000060000
     = Inr ([reversion_setup_2], new_detector\<lparr>activeSetups := [reversion_setup_2]\<rparr>)"
    by code_simp
  then show ?thesis by (simp add: reversion_setup_2_def)
qed

text \<open>
  C8. The claim: the confidence of every emitted setup is clamped to at most 0.95, for
  the trend-following strategy too. The other four strategies do keep it at or below
  0.95 (lemma \<open>other_strategies_capped\<close>). The trend-following strategy divides the
  absolute score by the maximum 5.3 and does not clamp: in a trending regime with bullish
  moving averages, a LONG prediction of confidence 0.9 and a bullish MACD the score is
  \<open>1 + 1.5 + 1.8 + 0.8 = 5.1\<close> and the emitted confidence is \<open>5.1 / 5.3\<close>, above 0.96.
  The theorem evaluates the code there.
\<close>

theorem trend_following_confidence_uncapped:
  "analyzeMarket new_detector [ex_candle] [trending_snapshot] [] (Some long_prediction) trending
       1700000060000
     = Inr ([trend_setup_1], new_detector\<lparr>activeSetups := [trend_setup_1]\<rparr>)
   \<and> Fin 0.95 < confidence trend_setup_1"
proof -
  have "analyzeMarket new_detector [ex_candle] [trending_snapshot] [] (Some long_prediction)
       trending 1700000060000
     = Inr ([trend_setup_1], new_detector\<lparr>activeSetups := [trend_setup_1]\<rparr>)"
    by code_simp
  then show ?thesis by (simp add: trend_setup_1_def)
qed

end
